theory Spec2Isabelle
  imports Complex_Main "HOL-Library.Word"
begin

section \<open>SceneManager: data model\<close>

text \<open>
  The development embeds \<^verbatim>\<open>Source/SceneManager.cpp\<close>. The class keeps two small
  registries (loaded textures, object materials) and talks to three collaborators that
  are not part of the file: the image decoder (stb_image), OpenGL, and the shader manager
  and shape meshes objects. The collaborators are modelled by a record \<open>world\<close>; the
  members of the class by a record \<open>SceneManager\<close>.

  A C++ \<open>float\<close> is written as a real number: a literal such as \<open>0.1f\<close> stands for the
  value the source text names. No theorem below depends on floating-point rounding; the
  matrix arithmetic of glm is a parameter.
\<close>

type_synonym GLuint = "32 word"
type_synonym glfloat = real
type_synonym vec2 = "glfloat \<times> glfloat"
type_synonym vec3 = "glfloat \<times> glfloat \<times> glfloat"
type_synonym vec4 = "glfloat \<times> glfloat \<times> glfloat \<times> glfloat"

text \<open>A \<open>glm::mat4\<close> is four columns, as glm stores it.\<close>

type_synonym mat4 = "vec4 \<times> vec4 \<times> vec4 \<times> vec4"

text \<open>
  \<open>TEXTURE_INFO\<close> and \<open>OBJECT_MATERIAL\<close> are declared in \<^verbatim>\<open>SceneManager.h\<close>; their
  fields are the ones the source file reads and writes. \<open>ID\<close> is a \<open>GLuint\<close>:
  \<open>DestroyGLTextures\<close> passes its address to \<open>glGenTextures\<close>.
\<close>

record TEXTURE_INFO =
  tag :: string
  ID :: GLuint

record OBJECT_MATERIAL =
  ambientColor :: vec3
  ambientStrength :: glfloat
  diffuseColor :: vec3
  specularColor :: vec3
  shininess :: glfloat
  tag :: string

text \<open>
  Every call the class makes on the shader manager or on the shape meshes is recorded, in
  order, in the world. The first argument of a \<open>set...Value\<close> call is the uniform's name.
\<close>

datatype call =
    setMat4Value string mat4
  | setIntValue string int
  | setFloatValue string glfloat
  | setVec2Value string vec2
  | setVec3Value string vec3
  | setVec4Value string vec4
  | setSampler2DValue string int
  | LoadPlaneMesh
  | LoadBoxMesh
  | LoadTaperedCylinderMesh
  | LoadPrismMesh
  | LoadPyramid3Mesh
  | DrawPlaneMesh
  | DrawBoxMesh
  | DrawTaperedCylinderMesh
  | DrawPrismMesh

text \<open>What \<open>stbi_load\<close> reports for a decoded image; the pixels are not modelled.\<close>

record image =
  width :: int
  height :: int
  colorChannels :: int

text \<open>
  The world: which files \<open>stbi_load\<close> can decode (\<open>None\<close> is its null result), the
  texture names \<open>glGenTextures\<close> hands out (the \<open>n\<close>-th call returns
  \<open>gl_name_supply n\<close>), the active texture unit, the 2D texture bound on each unit, and
  the calls received by the shader manager and the meshes, oldest first.
\<close>

record world =
  stbi_files :: "string \<Rightarrow> image option"
  gl_name_supply :: "nat \<Rightarrow> GLuint"
  gl_names_generated :: nat
  gl_active_texture :: int
  gl_texture_binding_2d :: "int \<Rightarrow> GLuint"
  calls :: "call list"

text \<open>
  The members of the class. \<open>m_pShaderManager\<close> is a pointer: \<open>None\<close> is \<open>NULL\<close>,
  \<open>Some a\<close> the address of the shader manager. \<open>m_textureIDs\<close> is a C array; its
  length is the declared capacity. \<open>m_basicMeshes\<close> is allocated by the constructor and
  never null, so it carries no state here.
\<close>

record SceneManager =
  m_pShaderManager :: "nat option"
  m_textureIDs :: "TEXTURE_INFO list"
  m_loadedTextures :: int
  m_objectMaterials :: "OBJECT_MATERIAL list"

text \<open>
  The constructor stores the shader manager pointer and allocates the meshes. It assigns
  neither \<open>m_loadedTextures\<close> nor the entries of \<open>m_textureIDs\<close>: what they hold
  after construction is decided by their declarations in \<^verbatim>\<open>SceneManager.h\<close>, so
  both are parameters here. The vector \<open>m_objectMaterials\<close> starts empty. The
  destructor, \<open>DestroyGLTextures\<close> and \<open>SetupSceneLights\<close> are not embedded; no
  property below concerns them.
\<close>

definition SceneManager_new :: "nat option \<Rightarrow> TEXTURE_INFO list \<Rightarrow> int \<Rightarrow> SceneManager" where
  "SceneManager_new pShaderManager textureIDs0 loadedTextures0 =
     \<lparr>m_pShaderManager = pShaderManager,
      m_textureIDs = textureIDs0,
      m_loadedTextures = loadedTextures0,
      m_objectMaterials = []\<rparr>"

text \<open>
  Modelled from the spec: the capacity of \<open>m_textureIDs\<close>, declared in
  \<^verbatim>\<open>SceneManager.h\<close>, which is not among the sources. The spec gives the registry a
  capacity of 16 entries; the comments of \<open>BindGLTextures\<close> and \<open>PrepareScene\<close> name the
  same number.
\<close>

definition texture_capacity :: nat where
  "texture_capacity = 16"

text \<open>
  Undefined behaviour of the C++ is an error value: an array access outside
  \<open>m_textureIDs\<close> (with the offending index) and a call through a null
  \<open>m_pShaderManager\<close>.
\<close>

datatype error = OutOfBounds int | NullDereference

definition in_bounds :: "SceneManager \<Rightarrow> int \<Rightarrow> bool" where
  "in_bounds s i = (0 \<le> i \<and> i < int (length (m_textureIDs s)))"

section \<open>OpenGL and stb_image, as far as the class uses them\<close>

definition stbi_load :: "world \<Rightarrow> string \<Rightarrow> image option" where
  "stbi_load w filename = stbi_files w filename"

definition glGenTextures :: "world \<Rightarrow> GLuint \<times> world" where
  "glGenTextures w =
     (gl_name_supply w (gl_names_generated w),
      w\<lparr>gl_names_generated := Suc (gl_names_generated w)\<rparr>)"

definition GL_TEXTURE0 :: int where
  "GL_TEXTURE0 = 0x84C0"

definition glActiveTexture :: "int \<Rightarrow> world \<Rightarrow> world" where
  "glActiveTexture unit w = w\<lparr>gl_active_texture := unit\<rparr>"

text \<open>
  \<open>glBindTexture(GL_TEXTURE_2D, t)\<close>: binds on the active unit. Texture units are
  named by the integer \<open>GL_TEXTURE0 + i\<close>; the model puts no bound on \<open>i\<close>.
\<close>

definition glBindTexture :: "GLuint \<Rightarrow> world \<Rightarrow> world" where
  "glBindTexture t w =
     w\<lparr>gl_texture_binding_2d := (gl_texture_binding_2d w)(gl_active_texture w := t)\<rparr>"

section \<open>The texture registry\<close>

text \<open>
  \<open>CreateGLTexture\<close>. A null image returns false at once. Otherwise a texture name is
  generated and bound; with 3 or 4 channels the image is uploaded, the texture unbound
  and the entry at index \<open>m_loadedTextures\<close> written; with any other channel count the
  function returns false out of the middle, the new texture still bound. The texture
  parameters, the upload, the mipmaps, the flip flag of stb_image, the freeing of the
  image and the console output do not touch the modelled state.
\<close>

definition CreateGLTexture ::
  "string \<Rightarrow> string \<Rightarrow> world \<times> SceneManager \<Rightarrow> error + (bool \<times> world \<times> SceneManager)" where
  "CreateGLTexture filename tg ws =
     (case ws of (w, s) \<Rightarrow>
       (case stbi_load w filename of
          None \<Rightarrow> Inr (False, w, s)
        | Some img \<Rightarrow>
            (let (textureID, w1) = glGenTextures w;
                 w2 = glBindTexture textureID w1
             in if colorChannels img = 3 \<or> colorChannels img = 4 then
                  (let w3 = glBindTexture 0 w2;
                       n = m_loadedTextures s
                   in if in_bounds s n then
                        Inr (True, w3,
                          s\<lparr>m_textureIDs :=
                               (m_textureIDs s)
                                 [nat n := (m_textureIDs s ! nat n)
                                    \<lparr>ID := textureID, TEXTURE_INFO.tag := tg\<rparr>],
                             m_loadedTextures := n + 1\<rparr>)
                      else Inl (OutOfBounds n))
                else Inr (False, w2, s))))"

text \<open>
  \<open>BindGLTextures\<close>: the \<open>for\<close> loop over \<open>i\<close>, as a recursion on \<open>i\<close>.
\<close>

function BindGLTextures_loop :: "SceneManager \<Rightarrow> int \<Rightarrow> world \<Rightarrow> error + world" where
  "BindGLTextures_loop s i w =
     (if i < m_loadedTextures s then
        (if in_bounds s i then
           BindGLTextures_loop s (i + 1)
             (glBindTexture (ID (m_textureIDs s ! nat i)) (glActiveTexture (GL_TEXTURE0 + i) w))
         else Inl (OutOfBounds i))
      else Inr w)"
  by pat_completeness auto
termination
  by (relation "measure (\<lambda>(s, i, w). nat (m_loadedTextures s - i))") auto

definition BindGLTextures :: "SceneManager \<Rightarrow> world \<Rightarrow> error + world" where
  "BindGLTextures s w = BindGLTextures_loop s 0 w"

text \<open>
  \<open>FindTextureID\<close> and \<open>FindTextureSlot\<close>: the \<open>while\<close> loop with its three locals.
  \<open>std::string::compare\<close> returns 0 exactly on equal strings. \<open>FindTextureID\<close>
  stores the unsigned \<open>ID\<close> into an \<open>int\<close>: the conversion is \<open>sint\<close>.
\<close>

function FindTextureID_loop ::
  "SceneManager \<Rightarrow> string \<Rightarrow> int \<Rightarrow> int \<Rightarrow> bool \<Rightarrow> error + int" where
  "FindTextureID_loop s tg textureID index bFound =
     (if index < m_loadedTextures s \<and> bFound = False then
        (if in_bounds s index then
           (if TEXTURE_INFO.tag (m_textureIDs s ! nat index) = tg then
              FindTextureID_loop s tg (sint (ID (m_textureIDs s ! nat index))) index True
            else FindTextureID_loop s tg textureID (index + 1) bFound)
         else Inl (OutOfBounds index))
      else Inr textureID)"
  by pat_completeness auto
termination
  by (relation "measure (\<lambda>(s, tg, t, index, bFound).
        2 * nat (m_loadedTextures s - index) + (if bFound then 0 else 1))") auto

definition FindTextureID :: "SceneManager \<Rightarrow> string \<Rightarrow> error + int" where
  "FindTextureID s tg = FindTextureID_loop s tg (- 1) 0 False"

function FindTextureSlot_loop ::
  "SceneManager \<Rightarrow> string \<Rightarrow> int \<Rightarrow> int \<Rightarrow> bool \<Rightarrow> error + int" where
  "FindTextureSlot_loop s tg textureSlot index bFound =
     (if index < m_loadedTextures s \<and> bFound = False then
        (if in_bounds s index then
           (if TEXTURE_INFO.tag (m_textureIDs s ! nat index) = tg then
              FindTextureSlot_loop s tg index index True
            else FindTextureSlot_loop s tg textureSlot (index + 1) bFound)
         else Inl (OutOfBounds index))
      else Inr textureSlot)"
  by pat_completeness auto
termination
  by (relation "measure (\<lambda>(s, tg, t, index, bFound).
        2 * nat (m_loadedTextures s - index) + (if bFound then 0 else 1))") auto

definition FindTextureSlot :: "SceneManager \<Rightarrow> string \<Rightarrow> error + int" where
  "FindTextureSlot s tg = FindTextureSlot_loop s tg (- 1) 0 False"

section \<open>The material registry\<close>

text \<open>
  \<open>FindMaterial\<close>. The output parameter \<open>material\<close> is passed in and returned. The loop
  copies five fields of the matching entry into it (not the tag) and the function ends
  with \<open>return(true)\<close>, whatever \<open>bFound\<close> holds.
\<close>

function FindMaterial_loop ::
  "SceneManager \<Rightarrow> string \<Rightarrow> OBJECT_MATERIAL \<Rightarrow> nat \<Rightarrow> bool \<Rightarrow> OBJECT_MATERIAL" where
  "FindMaterial_loop s tg material index bFound =
     (if index < length (m_objectMaterials s) \<and> bFound = False then
        (if OBJECT_MATERIAL.tag (m_objectMaterials s ! index) = tg then
           FindMaterial_loop s tg
             (material
                \<lparr>ambientColor := ambientColor (m_objectMaterials s ! index),
                 ambientStrength := ambientStrength (m_objectMaterials s ! index),
                 diffuseColor := diffuseColor (m_objectMaterials s ! index),
                 specularColor := specularColor (m_objectMaterials s ! index),
                 shininess := shininess (m_objectMaterials s ! index)\<rparr>)
             index True
         else FindMaterial_loop s tg material (index + 1) bFound)
      else material)"
  by pat_completeness auto
termination
  by (relation "measure (\<lambda>(s, tg, m, index, bFound).
        2 * (length (m_objectMaterials s) - index) + (if bFound then 0 else 1))") auto

definition FindMaterial ::
  "SceneManager \<Rightarrow> string \<Rightarrow> OBJECT_MATERIAL \<Rightarrow> bool \<times> OBJECT_MATERIAL" where
  "FindMaterial s tg material =
     (if length (m_objectMaterials s) = 0 then (False, material)
      else (True, FindMaterial_loop s tg material 0 False))"

text \<open>\<open>DefineObjectMaterials\<close>: two locals, each filled and pushed back.\<close>

definition shinyMaterial :: OBJECT_MATERIAL where
  "shinyMaterial =
     \<lparr>ambientColor = (0.3, 0.1, 0.1),
      ambientStrength = 0.1,
      diffuseColor = (0.3, 0.3, 0.3),
      specularColor = (0.5, 0.5, 0.5),
      shininess = 64.0,
      OBJECT_MATERIAL.tag = ''metal''\<rparr>"

definition dullMaterial :: OBJECT_MATERIAL where
  "dullMaterial =
     \<lparr>ambientColor = (0.1, 0.1, 0.1),
      ambientStrength = 0.1,
      diffuseColor = (0.3, 0.3, 0.3),
      specularColor = (0.1, 0.1, 0.1),
      shininess = 16.0,
      OBJECT_MATERIAL.tag = ''wood''\<rparr>"

definition push_back :: "'a \<Rightarrow> 'a list \<Rightarrow> 'a list" where
  "push_back x xs = xs @ [x]"

definition DefineObjectMaterials :: "SceneManager \<Rightarrow> SceneManager" where
  "DefineObjectMaterials s =
     (let s1 = s\<lparr>m_objectMaterials := push_back shinyMaterial (m_objectMaterials s)\<rparr>
      in s1\<lparr>m_objectMaterials := push_back dullMaterial (m_objectMaterials s1)\<rparr>)"

section \<open>Shader settings\<close>

text \<open>The uniform names of the anonymous namespace.\<close>

definition g_ModelName :: string where "g_ModelName = ''model''"
definition g_ColorValueName :: string where "g_ColorValueName = ''objectColor''"
definition g_TextureValueName :: string where "g_TextureValueName = ''objectTexture''"
definition g_UseTextureName :: string where "g_UseTextureName = ''bUseTexture''"
definition g_UseLightingName :: string where "g_UseLightingName = ''bUseLighting''"

text \<open>A call on a collaborator is appended to the calls of the world.\<close>

definition issue :: "call \<Rightarrow> world \<Rightarrow> world" where
  "issue c w = w\<lparr>calls := calls w @ [c]\<rparr>"

text \<open>
  The functions of glm that \<open>SetTransformations\<close> calls are parameters: \<open>glm::scale\<close>,
  \<open>glm::rotate\<close> (angle, axis), \<open>glm::translate\<close>, \<open>glm::radians\<close> and the product of
  two \<open>mat4\<close>.
\<close>

record glm =
  glm_scale :: "vec3 \<Rightarrow> mat4"
  glm_rotate :: "glfloat \<Rightarrow> vec3 \<Rightarrow> mat4"
  glm_translate :: "vec3 \<Rightarrow> mat4"
  glm_radians :: "glfloat \<Rightarrow> glfloat"
  glm_mul :: "mat4 \<Rightarrow> mat4 \<Rightarrow> mat4"

text \<open>
  \<open>SetTransformations\<close>. The C++ product \<open>translation * rotationZ * rotationY * rotationX * scale\<close>
  associates to the left. Nothing is uploaded through a null shader manager.
\<close>

definition SetTransformations ::
  "glm \<Rightarrow> vec3 \<Rightarrow> glfloat \<Rightarrow> glfloat \<Rightarrow> glfloat \<Rightarrow> vec3 \<Rightarrow> SceneManager \<Rightarrow> world \<Rightarrow> world" where
  "SetTransformations g scaleXYZ XrotationDegrees YrotationDegrees ZrotationDegrees positionXYZ s w =
     (let scale = glm_scale g scaleXYZ;
          rotationX = glm_rotate g (glm_radians g XrotationDegrees) (1.0, 0.0, 0.0);
          rotationY = glm_rotate g (glm_radians g YrotationDegrees) (0.0, 1.0, 0.0);
          rotationZ = glm_rotate g (glm_radians g ZrotationDegrees) (0.0, 0.0, 1.0);
          translation = glm_translate g positionXYZ;
          modelView =
            glm_mul g (glm_mul g (glm_mul g (glm_mul g translation rotationZ) rotationY) rotationX)
              scale
      in case m_pShaderManager s of
           None \<Rightarrow> w
         | Some p \<Rightarrow> issue (setMat4Value g_ModelName modelView) w)"

text \<open>
  \<open>SetShaderColor\<close> and \<open>SetShaderTexture\<close>. The \<open>bool\<close> arguments \<open>false\<close> and
  \<open>true\<close> of \<open>setIntValue\<close> arrive as the integers 0 and 1.
\<close>

definition SetShaderColor ::
  "glfloat \<Rightarrow> glfloat \<Rightarrow> glfloat \<Rightarrow> glfloat \<Rightarrow> SceneManager \<Rightarrow> world \<Rightarrow> world" where
  "SetShaderColor redColorValue greenColorValue blueColorValue alphaValue s w =
     (let currentColor = (redColorValue, greenColorValue, blueColorValue, alphaValue)
      in case m_pShaderManager s of
           None \<Rightarrow> w
         | Some p \<Rightarrow>
             issue (setVec4Value g_ColorValueName currentColor)
               (issue (setIntValue g_UseTextureName 0) w))"

definition SetShaderTexture :: "string \<Rightarrow> SceneManager \<Rightarrow> world \<Rightarrow> error + world" where
  "SetShaderTexture textureTag s w =
     (case m_pShaderManager s of
        None \<Rightarrow> Inr w
      | Some p \<Rightarrow>
          (let w1 = issue (setIntValue g_UseTextureName 1) w
           in case FindTextureSlot s textureTag of
                Inl e \<Rightarrow> Inl e
              | Inr textureID \<Rightarrow> Inr (issue (setSampler2DValue g_TextureValueName textureID) w1)))"

definition SetTextureUVScale :: "glfloat \<Rightarrow> glfloat \<Rightarrow> SceneManager \<Rightarrow> world \<Rightarrow> world" where
  "SetTextureUVScale u v s w =
     (case m_pShaderManager s of
        None \<Rightarrow> w
      | Some p \<Rightarrow> issue (setVec2Value ''UVscale'' (u, v)) w)"

text \<open>
  \<open>SetShaderMaterial\<close>. Its local \<open>material\<close> is not initialised; \<open>material0\<close> stands
  for whatever the local holds when \<open>FindMaterial\<close> receives it. The shader manager is
  dereferenced without a null test.
\<close>

definition SetShaderMaterial ::
  "OBJECT_MATERIAL \<Rightarrow> string \<Rightarrow> SceneManager \<Rightarrow> world \<Rightarrow> error + world" where
  "SetShaderMaterial material0 materialTag s w =
     (if length (m_objectMaterials s) > 0 then
        (case FindMaterial s materialTag material0 of
           (bReturn, material) \<Rightarrow>
             if bReturn = True then
               (case m_pShaderManager s of
                  None \<Rightarrow> Inl NullDereference
                | Some p \<Rightarrow>
                    Inr (issue (setFloatValue ''material.ambientStrength'' (ambientStrength material))
                        (issue (setVec3Value ''material.ambientColor'' (ambientColor material))
                        (issue (setFloatValue ''material.shininess'' (shininess material))
                        (issue (setVec3Value ''material.specularColor'' (specularColor material))
                        (issue (setVec3Value ''material.diffuseColor'' (diffuseColor material))
                           w))))))
             else Inr w)
      else Inr w)"

section \<open>Preparing the scene\<close>

text \<open>Sequencing of fallible steps: the first error ends the run.\<close>

definition then_do :: "error + 'a \<Rightarrow> ('a \<Rightarrow> error + 'b) \<Rightarrow> error + 'b" where
  "then_do r f = (case r of Inl e \<Rightarrow> Inl e | Inr x \<Rightarrow> f x)"

text \<open>
  \<open>PrepareScene\<close>: five meshes are loaded, twelve textures created one after the other
  (each result is stored in \<open>bReturn\<close> and never read), and the loaded textures bound.
\<close>

definition PrepareScene :: "world \<times> SceneManager \<Rightarrow> error + (world \<times> SceneManager)" where
  "PrepareScene ws =
     (case ws of (w, s) \<Rightarrow>
       (let w0 = issue LoadPyramid3Mesh (issue LoadPrismMesh (issue LoadTaperedCylinderMesh
                   (issue LoadBoxMesh (issue LoadPlaneMesh w))))
        in
        then_do (CreateGLTexture ''textures/Brick.jpg'' ''brick'' (w0, s)) (\<lambda>(bReturn, ws1).
        then_do (CreateGLTexture ''textures/Wood Test.jpg'' ''wood'' ws1) (\<lambda>(bReturn, ws2).
        then_do (CreateGLTexture ''textures/Wall.jpg'' ''wall'' ws2) (\<lambda>(bReturn, ws3).
        then_do (CreateGLTexture ''textures/Grass.jpg'' ''grass'' ws3) (\<lambda>(bReturn, ws4).
        then_do (CreateGLTexture ''textures/PatternCement.jpeg'' ''cement'' ws4) (\<lambda>(bReturn, ws5).
        then_do (CreateGLTexture ''textures/LightTan.jpg'' ''beam'' ws5) (\<lambda>(bReturn, ws6).
        then_do (CreateGLTexture ''textures/door.jpg'' ''door'' ws6) (\<lambda>(bReturn, ws7).
        then_do (CreateGLTexture ''textures/outergreen.jpg'' ''outergreen'' ws7) (\<lambda>(bReturn, ws8).
        then_do (CreateGLTexture ''textures/concrete.jpeg'' ''concrete'' ws8) (\<lambda>(bReturn, ws9).
        then_do (CreateGLTexture ''textures/roof.jpg'' ''roof'' ws9) (\<lambda>(bReturn, ws10).
        then_do (CreateGLTexture ''textures/glass.jpg'' ''window'' ws10) (\<lambda>(bReturn, ws11).
        then_do (CreateGLTexture ''textures/garagedoor.jpg'' ''garage'' ws11) (\<lambda>(bReturn, ws12).
        then_do (BindGLTextures (snd ws12) (fst ws12)) (\<lambda>w13.
        Inr (w13, snd ws12))))))))))))))))"

section \<open>Rendering the scene\<close>

text \<open>
  A block of statements runs them in order on the world and stops at the first error;
  \<open>ok\<close> is a statement that cannot fail.
\<close>

definition ok :: "(world \<Rightarrow> world) \<Rightarrow> world \<Rightarrow> error + world" where
  "ok f w = Inr (f w)"

fun run :: "(world \<Rightarrow> error + world) list \<Rightarrow> world \<Rightarrow> error + world" where
  "run [] w = Inr w"
| "run (f # fs) w = then_do (f w) (run fs)"

text \<open>
  \<open>RenderScene\<close>: the 27 objects of the scene, in the order of the source. Each
  \<open>SetTransformations\<close> is written with the values the five locals \<open>scaleXYZ\<close>,
  \<open>XrotationDegrees\<close>, \<open>YrotationDegrees\<close>, \<open>ZrotationDegrees\<close> and \<open>positionXYZ\<close> were
  assigned just before it. A \<open>Draw...Mesh\<close> is a call on the shape meshes.
\<close>

definition RenderScene :: "glm \<Rightarrow> OBJECT_MATERIAL \<Rightarrow> SceneManager \<Rightarrow> world \<Rightarrow> error + world" where
  "RenderScene g material0 s =
     run
      [ok (SetTransformations g (20, 1, 10) 0 0 0 (0, 0, 0) s),
       ok (SetShaderColor 0.5 0.5 0.5 1 s),
       SetShaderTexture ''grass'' s,
       ok (SetTextureUVScale 1 1 s),
       SetShaderMaterial material0 ''metal'' s,
       ok (issue DrawPlaneMesh),
       ok (SetTransformations g (20, 1, 10) 90 0 0 (0, 9, - 10) s),
       ok (SetShaderColor 0.55 0.55 0.55 1 s),
       SetShaderMaterial material0 ''metal'' s,
       ok (issue DrawPlaneMesh),
       ok (SetTransformations g (1, 0.5, 1) 0 0 0 (6.75, 0.25, 3) s),
       ok (SetShaderColor 0.25 0.17 0.07 1 s),
       SetShaderTexture ''wood'' s,
       ok (SetTextureUVScale 1 0.5 s),
       SetShaderMaterial material0 ''wood'' s,
       ok (issue DrawBoxMesh),
       ok (SetTransformations g (0.3, 3, 0.3) 0 0 0 (6.75, 0.5, 3) s),
       ok (SetShaderColor 0.4 0.2 0.1 1 s),
       SetShaderTexture ''wood'' s,
       ok (SetTextureUVScale 1.8 3 s),
       SetShaderMaterial material0 ''wood'' s,
       ok (issue DrawTaperedCylinderMesh),
       ok (SetTransformations g (1, 0.5, 1) 0 0 0 (4.75, 0.25, 3) s),
       ok (SetShaderColor 0.25 0.17 0.07 1 s),
       SetShaderTexture ''wood'' s,
       ok (SetTextureUVScale 1 0.5 s),
       SetShaderMaterial material0 ''wood'' s,
       ok (issue DrawBoxMesh),
       ok (SetTransformations g (0.3, 3, 0.3) 0 0 0 (4.75, 0.5, 3) s),
       ok (SetShaderColor 0.4 0.2 0.1 1 s),
       SetShaderTexture ''wood'' s,
       ok (SetTextureUVScale 1.8 3 s),
       SetShaderMaterial material0 ''wood'' s,
       ok (issue DrawTaperedCylinderMesh),
       ok (SetTransformations g (1, 0.5, 1) 0 0 0 (0.25, 0.25, 3) s),
       ok (SetShaderColor 0.25 0.17 0.07 1 s),
       SetShaderTexture ''wood'' s,
       ok (SetTextureUVScale 1 0.5 s),
       SetShaderMaterial material0 ''wood'' s,
       ok (issue DrawBoxMesh),
       ok (SetTransformations g (0.3, 3, 0.3) 0 0 0 (0.25, 0.5, 3) s),
       ok (SetShaderColor 0.4 0.2 0.1 1 s),
       SetShaderTexture ''wood'' s,
       ok (SetTextureUVScale 1.8 3 s),
       SetShaderMaterial material0 ''wood'' s,
       ok (issue DrawTaperedCylinderMesh),
       ok (SetTransformations g (1, 0.5, 1) 0 0 0 (- 2, 0.25, 3) s),
       ok (SetShaderColor 0.25 0.17 0.07 1 s),
       SetShaderTexture ''wood'' s,
       ok (SetTextureUVScale 1 0.5 s),
       SetShaderMaterial material0 ''wood'' s,
       ok (issue DrawBoxMesh),
       ok (SetTransformations g (0.3, 3, 0.3) 0 0 0 (- 2, 0.5, 3) s),
       ok (SetShaderColor 0.4 0.2 0.1 1 s),
       SetShaderTexture ''wood'' s,
       ok (SetTextureUVScale 1.8 3 s),
       SetShaderMaterial material0 ''wood'' s,
       ok (issue DrawTaperedCylinderMesh),
       ok (SetTransformations g (10, 0.5, 1) 0 0 0 (2.25, 3.75, 3) s),
       ok (SetShaderColor 0.8 0.5 0.3 1 s),
       SetShaderTexture ''roof'' s,
       ok (SetTextureUVScale 8 1 s),
       SetShaderMaterial material0 ''wood'' s,
       ok (issue DrawBoxMesh),
       ok (SetTransformations g (15, 3.5, 8) 0 0 0 (- 10.25, 1.85, - 4.5) s),
       ok (SetShaderColor 0.8 0.5 0.3 1 s),
       SetShaderTexture ''outergreen'' s,
       ok (SetTextureUVScale 4 1 s),
       SetShaderMaterial material0 ''wood'' s,
       ok (issue DrawBoxMesh),
       ok (SetTransformations g (7, 3.5, 8) 0 0 0 (4.25, 1.5, - 4.5) s),
       ok (SetShaderColor 0.8 0.5 0.3 1 s),
       SetShaderTexture ''brick'' s,
       ok (SetTextureUVScale 8 1 s),
       SetShaderMaterial material0 ''wood'' s,
       ok (issue DrawBoxMesh),
       ok (SetTransformations g (3.75, 0.1, 15.5) 0 0 0 (- 1, 0, 2.2) s),
       ok (SetShaderColor 0.8 0.5 0.3 1 s),
       SetShaderTexture ''concrete'' s,
       ok (SetTextureUVScale 1 1 s),
       SetShaderMaterial material0 ''wood'' s,
       ok (issue DrawBoxMesh),
       ok (SetTransformations g (9.75, 0.1, 5.25) 0 0 0 (2.9, 0, 0.95) s),
       ok (SetShaderColor 0.8 0.5 0.3 1 s),
       SetShaderTexture ''concrete'' s,
       ok (SetTextureUVScale 1 1 s),
       SetShaderMaterial material0 ''wood'' s,
       ok (issue DrawBoxMesh),
       ok (SetTransformations g (3.75, 3.4, 4) 0 0 0 (- 1, 1.95, - 6.45) s),
       ok (SetShaderColor 0.8 0.5 0.3 1 s),
       SetShaderTexture ''door'' s,
       ok (SetTextureUVScale 1 1 s),
       SetShaderMaterial material0 ''wood'' s,
       ok (issue DrawBoxMesh),
       ok (SetTransformations g (25.5, 3.5, 5) 0 0 0 (- 5, 5.35, - 6) s),
       ok (SetShaderColor 0.8 0.5 0.3 1 s),
       SetShaderTexture ''wall'' s,
       ok (SetTextureUVScale 8 1 s),
       SetShaderMaterial material0 ''wood'' s,
       ok (issue DrawBoxMesh),
       ok (SetTransformations g (3, 3, 3) 270 0 0 (- 16.25, 5, - 2) s),
       ok (SetShaderColor 0.8 0.5 0.3 1 s),
       SetShaderTexture ''outergreen'' s,
       ok (SetTextureUVScale 1 1 s),
       SetShaderMaterial material0 ''wood'' s,
       ok (issue DrawPrismMesh),
       ok (SetTransformations g (13, 2.5, 4) 0 0 0 (- 5, 7.25, - 6) s),
       ok (SetShaderColor 0.8 0.5 0.3 1 s),
       SetShaderTexture ''roof'' s,
       ok (SetTextureUVScale 8 1 s),
       SetShaderMaterial material0 ''wood'' s,
       ok (issue DrawPlaneMesh),
       ok (SetTransformations g (3, 3, 3) 270 0 0 (- 4.25, 5, - 2) s),
       ok (SetShaderColor 0.8 0.5 0.3 1 s),
       SetShaderTexture ''outergreen'' s,
       ok (SetTextureUVScale 1 1 s),
       SetShaderMaterial material0 ''wood'' s,
       ok (issue DrawPrismMesh),
       ok (SetTransformations g (2, 1, 1) 90 0 0 (- 10, 5.25, - 3) s),
       ok (SetShaderColor 0.5 0.5 0.5 1 s),
       SetShaderTexture ''window'' s,
       ok (SetTextureUVScale 1 1 s),
       SetShaderMaterial material0 ''metal'' s,
       ok (issue DrawPlaneMesh),
       ok (SetTransformations g (2, 1, 1) 90 0 0 (3, 5.25, - 3) s),
       ok (SetShaderColor 0.5 0.5 0.5 1 s),
       SetShaderTexture ''window'' s,
       ok (SetTextureUVScale 1 1 s),
       SetShaderMaterial material0 ''metal'' s,
       ok (issue DrawPlaneMesh),
       ok (SetTransformations g (2, 1, 1) 90 0 0 (4, 2, 0) s),
       ok (SetShaderColor 0.5 0.5 0.5 1 s),
       SetShaderTexture ''window'' s,
       ok (SetTextureUVScale 1 1 s),
       SetShaderMaterial material0 ''metal'' s,
       ok (issue DrawPlaneMesh),
       ok (SetTransformations g (5.5, 1, 1.5) 90 0 0 (- 10, 1.75, 0) s),
       ok (SetShaderColor 0.5 0.5 0.5 1 s),
       SetShaderTexture ''garage'' s,
       ok (SetTextureUVScale 0 1 s),
       SetShaderMaterial material0 ''metal'' s,
       ok (issue DrawPlaneMesh),
       ok (SetTransformations g (8, 1, 4) 0 0 0 (- 10.75, 3.7, - 4.25) s),
       ok (SetShaderColor 0.8 0.5 0.3 1 s),
       SetShaderTexture ''roof'' s,
       ok (SetTextureUVScale 4 1 s),
       SetShaderMaterial material0 ''wood'' s,
       ok (issue DrawPlaneMesh),
       ok (SetTransformations g (5, 1, 5) 0 0 0 (2.25, 3.5, - 1.75) s),
       ok (SetShaderColor 0.8 0.5 0.3 1 s),
       SetShaderTexture ''roof'' s,
       ok (SetTextureUVScale 8 1 s),
       SetShaderMaterial material0 ''wood'' s,
       ok (issue DrawPlaneMesh),
       ok (SetTransformations g (5.5, 1, 7) 0 0 0 (- 10, 0.01, 3) s),
       ok (SetShaderColor 0.5 0.5 0.5 1 s),
       SetShaderTexture ''concrete'' s,
       ok (SetTextureUVScale 1 1 s),
       SetShaderMaterial material0 ''metal'' s,
       ok (issue DrawPlaneMesh)]"

declare FindTextureID_loop.simps [simp del]
declare FindTextureSlot_loop.simps [simp del]
declare BindGLTextures_loop.simps [simp del]
declare FindMaterial_loop.simps [simp del]

section \<open>Vocabulary of the properties\<close>

text \<open>
  The loaded part of the registry, in registration order: the first \<open>m_loadedTextures\<close>
  entries of the array.
\<close>

definition loaded_textures :: "SceneManager \<Rightarrow> TEXTURE_INFO list" where
  "loaded_textures s = take (nat (m_loadedTextures s)) (m_textureIDs s)"

text \<open>
  The position of the first element of a list that satisfies a predicate: what a linear
  scan from index 0 is meant to find.
\<close>

fun first_index :: "('a \<Rightarrow> bool) \<Rightarrow> 'a list \<Rightarrow> nat option" where
  "first_index P [] = None"
| "first_index P (x # xs) = (if P x then Some 0 else map_option Suc (first_index P xs))"

text \<open>
  A file decodes when \<open>stbi_load\<close> returns an image and the image has 3 or 4 colour
  channels.
\<close>

definition decodes :: "world \<Rightarrow> string \<Rightarrow> bool" where
  "decodes w filename =
     (case stbi_load w filename of
        None \<Rightarrow> False
      | Some img \<Rightarrow> colorChannels img = 3 \<or> colorChannels img = 4)"

text \<open>
  The five fields \<open>FindMaterial\<close> copies from a registry entry \<open>e\<close> into the output
  parameter \<open>m\<close>; the tag of \<open>m\<close> stays.
\<close>

definition copy_material :: "OBJECT_MATERIAL \<Rightarrow> OBJECT_MATERIAL \<Rightarrow> OBJECT_MATERIAL" where
  "copy_material e m =
     m\<lparr>ambientColor := ambientColor e, ambientStrength := ambientStrength e,
       diffuseColor := diffuseColor e, specularColor := specularColor e,
       shininess := shininess e\<rparr>"

text \<open>
  The twelve \<open>CreateGLTexture\<close> calls of \<open>PrepareScene\<close>, file name and tag, in their
  order; and the run of a list of such calls from a state.
\<close>

definition scene_textures :: "(string \<times> string) list" where
  "scene_textures =
     [(''textures/Brick.jpg'', ''brick''),
      (''textures/Wood Test.jpg'', ''wood''),
      (''textures/Wall.jpg'', ''wall''),
      (''textures/Grass.jpg'', ''grass''),
      (''textures/PatternCement.jpeg'', ''cement''),
      (''textures/LightTan.jpg'', ''beam''),
      (''textures/door.jpg'', ''door''),
      (''textures/outergreen.jpg'', ''outergreen''),
      (''textures/concrete.jpeg'', ''concrete''),
      (''textures/roof.jpg'', ''roof''),
      (''textures/glass.jpg'', ''window''),
      (''textures/garagedoor.jpg'', ''garage'')]"

fun create_textures ::
  "(string \<times> string) list \<Rightarrow> world \<times> SceneManager \<Rightarrow> error + (world \<times> SceneManager)" where
  "create_textures [] ws = Inr ws"
| "create_textures (ft # fts) ws =
     then_do (CreateGLTexture (fst ft) (snd ft) ws) (\<lambda>(bReturn, ws1). create_textures fts ws1)"

definition load_meshes :: "world \<Rightarrow> world" where
  "load_meshes w =
     issue LoadPyramid3Mesh (issue LoadPrismMesh (issue LoadTaperedCylinderMesh
       (issue LoadBoxMesh (issue LoadPlaneMesh w))))"

text \<open>
  The uniform a call sets, and the most recent call among a list of calls that set a given
  uniform: the value the shader holds for it afterwards.
\<close>

fun uniform_name :: "call \<Rightarrow> string option" where
  "uniform_name (setMat4Value n m) = Some n"
| "uniform_name (setIntValue n i) = Some n"
| "uniform_name (setFloatValue n x) = Some n"
| "uniform_name (setVec2Value n v) = Some n"
| "uniform_name (setVec3Value n v) = Some n"
| "uniform_name (setVec4Value n v) = Some n"
| "uniform_name (setSampler2DValue n i) = Some n"
| "uniform_name c = None"

definition last_set :: "string \<Rightarrow> call list \<Rightarrow> call option" where
  "last_set n cs = List.find (\<lambda>c. uniform_name c = Some n) (rev cs)"

text \<open>
  The matrix the spec names: translation, then the rotations about z, y and x, then the
  scale, multiplied in this order.
\<close>

definition model_matrix ::
  "glm \<Rightarrow> vec3 \<Rightarrow> glfloat \<Rightarrow> glfloat \<Rightarrow> glfloat \<Rightarrow> vec3 \<Rightarrow> mat4" where
  "model_matrix g scaleXYZ xdeg ydeg zdeg positionXYZ =
     glm_mul g
       (glm_mul g
         (glm_mul g
           (glm_mul g (glm_translate g positionXYZ) (glm_rotate g (glm_radians g zdeg) (0, 0, 1)))
           (glm_rotate g (glm_radians g ydeg) (0, 1, 0)))
         (glm_rotate g (glm_radians g xdeg) (1, 0, 0)))
       (glm_scale g scaleXYZ)"

text \<open>A material tag is defined when some entry of the material registry carries it.\<close>

definition has_material :: "SceneManager \<Rightarrow> string \<Rightarrow> bool" where
  "has_material s tg = (\<exists>e \<in> set (m_objectMaterials s). OBJECT_MATERIAL.tag e = tg)"

text \<open>
  \<open>emit out\<close> is the statement that fails with \<open>e\<close> when \<open>out\<close> is \<open>Inl e\<close> and
  otherwise appends the calls \<open>out\<close> holds, leaving the rest of the world alone. A
  statement \<open>emits\<close> when it is such a statement: what it issues does not depend on the
  world it runs in.
\<close>

definition emit :: "error + call list \<Rightarrow> world \<Rightarrow> error + world" where
  "emit out w = (case out of Inl e \<Rightarrow> Inl e | Inr cs \<Rightarrow> Inr (w\<lparr>calls := calls w @ cs\<rparr>))"

definition emits :: "(world \<Rightarrow> error + world) \<Rightarrow> bool" where
  "emits f = (\<exists>out. \<forall>w. f w = emit out w)"

text \<open>The calls that draw a mesh.\<close>

fun is_draw :: "call \<Rightarrow> bool" where
  "is_draw DrawPlaneMesh = True"
| "is_draw DrawBoxMesh = True"
| "is_draw DrawTaperedCylinderMesh = True"
| "is_draw DrawPrismMesh = True"
| "is_draw c = False"

section \<open>glm in exact arithmetic\<close>

text \<open>
  glm is a library outside the repository. For evaluation at concrete inputs its five
  functions are given their meaning over the reals: \<open>glm::rotate\<close> by the formula glm
  uses (the axis normalised, the rotation applied to the identity), the product
  column by column.
\<close>

definition mat_vec :: "mat4 \<Rightarrow> vec4 \<Rightarrow> vec4" where
  "mat_vec m v =
     (case m of ((a0, a1, a2, a3), (b0, b1, b2, b3), (c0, c1, c2, c3), (d0, d1, d2, d3)) \<Rightarrow>
      case v of (x, y, z, t) \<Rightarrow>
        (a0 * x + b0 * y + c0 * z + d0 * t,
         a1 * x + b1 * y + c1 * z + d1 * t,
         a2 * x + b2 * y + c2 * z + d2 * t,
         a3 * x + b3 * y + c3 * z + d3 * t))"

definition mat_mul :: "mat4 \<Rightarrow> mat4 \<Rightarrow> mat4" where
  "mat_mul m n =
     (case n of (n0, n1, n2, n3) \<Rightarrow> (mat_vec m n0, mat_vec m n1, mat_vec m n2, mat_vec m n3))"

definition scale_exact :: "vec3 \<Rightarrow> mat4" where
  "scale_exact v =
     (case v of (x, y, z) \<Rightarrow> ((x, 0, 0, 0), (0, y, 0, 0), (0, 0, z, 0), (0, 0, 0, 1)))"

definition translate_exact :: "vec3 \<Rightarrow> mat4" where
  "translate_exact v =
     (case v of (x, y, z) \<Rightarrow> ((1, 0, 0, 0), (0, 1, 0, 0), (0, 0, 1, 0), (x, y, z, 1)))"

definition rotate_exact :: "glfloat \<Rightarrow> vec3 \<Rightarrow> mat4" where
  "rotate_exact angle v =
     (case v of (vx, vy, vz) \<Rightarrow>
       (let c = cos angle;
            s = sin angle;
            l = sqrt (vx * vx + vy * vy + vz * vz);
            ax = vx / l; ay = vy / l; az = vz / l;
            tx = (1 - c) * ax; ty = (1 - c) * ay; tz = (1 - c) * az
        in ((c + tx * ax, tx * ay + s * az, tx * az - s * ay, 0),
            (ty * ax - s * az, c + ty * ay, ty * az + s * ax, 0),
            (tz * ax + s * ay, tz * ay - s * ax, c + tz * az, 0),
            (0, 0, 0, 1))))"

definition radians_exact :: "glfloat \<Rightarrow> glfloat" where
  "radians_exact degrees = degrees * pi / 180"

definition glm_exact :: glm where
  "glm_exact =
     \<lparr>glm_scale = scale_exact, glm_rotate = rotate_exact, glm_translate = translate_exact,
      glm_radians = radians_exact, glm_mul = mat_mul\<rparr>"

section \<open>Concrete scenes and worlds\<close>

text \<open>
  A world in which three of the scene's files decode, one of them with a single channel,
  and the driver hands out the texture names 1, 2, 3, ...; and a scene manager as it is
  before any texture or material is registered, with a shader manager.
\<close>

definition example_world :: world where
  "example_world =
     \<lparr>stbi_files =
        map_of
          [(''textures/Brick.jpg'', \<lparr>width = 512, height = 512, colorChannels = 3\<rparr>),
           (''textures/door.jpg'', \<lparr>width = 256, height = 512, colorChannels = 4\<rparr>),
           (''textures/glass.jpg'', \<lparr>width = 64, height = 64, colorChannels = 1\<rparr>)],
      gl_name_supply = (\<lambda>n. of_nat (Suc n)),
      gl_names_generated = 0,
      gl_active_texture = GL_TEXTURE0,
      gl_texture_binding_2d = (\<lambda>u. 0),
      calls = []\<rparr>"

definition empty_scene :: SceneManager where
  "empty_scene =
     SceneManager_new (Some 1)
       (replicate texture_capacity \<lparr>TEXTURE_INFO.tag = '''', ID = 0\<rparr>) 0"

text \<open>
  A scene manager with three loaded textures, two of them under the same tag.
\<close>

definition example_scene :: SceneManager where
  "example_scene =
     \<lparr>m_pShaderManager = Some 1,
      m_textureIDs =
        [\<lparr>TEXTURE_INFO.tag = ''brick'', ID = 1\<rparr>, \<lparr>TEXTURE_INFO.tag = ''wood'', ID = 2\<rparr>,
         \<lparr>TEXTURE_INFO.tag = ''wood'', ID = 3\<rparr>] @
        replicate 13 \<lparr>TEXTURE_INFO.tag = '''', ID = 0\<rparr>,
      m_loadedTextures = 3,
      m_objectMaterials = []\<rparr>"

text \<open>
  The scene manager \<open>PrepareScene\<close> leaves when it starts from \<open>empty_scene\<close> in
  \<open>example_world\<close>: the brick and the door texture are loaded, the other ten files fail.
\<close>

definition prepared_scene :: SceneManager where
  "prepared_scene =
     \<lparr>m_pShaderManager = Some 1,
      m_textureIDs =
        [\<lparr>TEXTURE_INFO.tag = ''brick'', ID = 1\<rparr>, \<lparr>TEXTURE_INFO.tag = ''door'', ID = 2\<rparr>] @
        replicate 14 \<lparr>TEXTURE_INFO.tag = '''', ID = 0\<rparr>,
      m_loadedTextures = 2,
      m_objectMaterials = []\<rparr>"

text \<open>A scene manager constructed with a null shader manager.\<close>

definition null_shader_scene :: SceneManager where
  "null_shader_scene = prepared_scene\<lparr>m_pShaderManager := None\<rparr>"

text \<open>The prepared scene with the two materials defined.\<close>

definition furnished_scene :: SceneManager where
  "furnished_scene = DefineObjectMaterials prepared_scene"

text \<open>
  A world in which every file decodes to an RGB image; scene managers as the constructor
  leaves them when the count member holds 4 and 5; and the count of the scene manager a
  run ends in.
\<close>

definition decoding_world :: world where
  "decoding_world =
     \<lparr>stbi_files = (\<lambda>f. Some \<lparr>width = 512, height = 512, colorChannels = 3\<rparr>),
      gl_name_supply = (\<lambda>n. of_nat (Suc n)),
      gl_names_generated = 0,
      gl_active_texture = GL_TEXTURE0,
      gl_texture_binding_2d = (\<lambda>u. 0),
      calls = []\<rparr>"



definition count_after :: "error + (world \<times> SceneManager) \<Rightarrow> error + int" where
  "count_after r = (case r of Inl e \<Rightarrow> Inl e | Inr ws \<Rightarrow> Inr (m_loadedTextures (snd ws)))"

section \<open>Linear lookup in the texture registry\<close>

text \<open>
  \<open>first_index P xs\<close> is the least position of \<open>xs\<close> whose element satisfies \<open>P\<close>.
\<close>

lemma first_index_None: "first_index P xs = None \<longleftrightarrow> (\<forall>x \<in> set xs. \<not> P x)"
  by (induction xs) auto

lemma first_index_Some:
  "first_index P xs = Some i \<longleftrightarrow> i < length xs \<and> P (xs ! i) \<and> (\<forall>j < i. \<not> P (xs ! j))"
proof (induction xs arbitrary: i)
  case Nil
  then show ?case by simp
next
  case (Cons x xs)
  show ?case
  proof (cases "P x")
    case True
    then show ?thesis by (cases i) auto
  next
    case False
    show ?thesis
    proof (cases i)
      case 0
      with False show ?thesis by simp
    next
      case (Suc k)
      have "(\<forall>j < Suc k. \<not> P ((x # xs) ! j)) \<longleftrightarrow> (\<forall>j < k. \<not> P (xs ! j))"
        using False by (auto simp: less_Suc_eq_0_disj)
      with Suc False Cons.IH [of k] show ?thesis by auto
    qed
  qed
qed

lemma drop_loaded:
  assumes "0 \<le> k" "k < m_loadedTextures s" "m_loadedTextures s \<le> int (length (m_textureIDs s))"
  shows "drop (nat k) (loaded_textures s) =
           (m_textureIDs s ! nat k) # drop (nat (k + 1)) (loaded_textures s)"
proof -
  have "nat k < length (loaded_textures s)"
    using assms by (simp add: loaded_textures_def)
  then have "drop (nat k) (loaded_textures s) =
      (loaded_textures s ! nat k) # drop (Suc (nat k)) (loaded_textures s)"
    by (simp add: Cons_nth_drop_Suc)
  moreover have "loaded_textures s ! nat k = m_textureIDs s ! nat k"
    using assms by (simp add: loaded_textures_def)
  moreover have "Suc (nat k) = nat (k + 1)"
    using assms by simp
  ultimately show ?thesis by simp
qed

lemma FindTextureSlot_loop_exit:
  "\<not> index < m_loadedTextures s \<Longrightarrow> FindTextureSlot_loop s tg t index b = Inr t"
  by (subst FindTextureSlot_loop.simps) simp

lemma FindTextureSlot_loop_found:
  "FindTextureSlot_loop s tg t index True = Inr t"
  by (subst FindTextureSlot_loop.simps) simp

lemma FindTextureSlot_loop_step:
  "index < m_loadedTextures s \<Longrightarrow> in_bounds s index \<Longrightarrow>
   FindTextureSlot_loop s tg t index False =
     (if TEXTURE_INFO.tag (m_textureIDs s ! nat index) = tg then Inr index
      else FindTextureSlot_loop s tg t (index + 1) False)"
  by (subst FindTextureSlot_loop.simps) (simp add: FindTextureSlot_loop_found)

lemma FindTextureSlot_loop_scan:
  assumes "0 \<le> k" "k \<le> m_loadedTextures s" "m_loadedTextures s \<le> int (length (m_textureIDs s))"
  shows "FindTextureSlot_loop s tg t k False =
           Inr (case first_index (\<lambda>e. TEXTURE_INFO.tag e = tg) (drop (nat k) (loaded_textures s)) of
                  None \<Rightarrow> t | Some j \<Rightarrow> k + int j)"
  using assms
proof (induction "nat (m_loadedTextures s - k)" arbitrary: k t)
  case 0
  then have "k = m_loadedTextures s" by simp
  then show ?case
    by (simp add: FindTextureSlot_loop_exit loaded_textures_def)
next
  case (Suc n)
  then have lt: "k < m_loadedTextures s" by simp
  have ib: "in_bounds s k"
    using Suc.prems lt by (simp add: in_bounds_def)
  note dl = drop_loaded [OF Suc.prems(1) lt Suc.prems(3)]
  show ?case
  proof (cases "TEXTURE_INFO.tag (m_textureIDs s ! nat k) = tg")
    case True
    then show ?thesis
      using lt ib
      by (simp add: FindTextureSlot_loop_step dl)
  next
    case False
    have "FindTextureSlot_loop s tg t (k + 1) False =
           Inr (case first_index (\<lambda>e. TEXTURE_INFO.tag e = tg) (drop (nat (k + 1)) (loaded_textures s)) of
                  None \<Rightarrow> t | Some j \<Rightarrow> (k + 1) + int j)"
      using Suc.hyps(2) Suc.prems lt by (intro Suc.hyps(1)) auto
    then show ?thesis
      using lt ib False
      by (simp add: FindTextureSlot_loop_step dl split: option.splits)
  qed
qed

lemma FindTextureID_loop_exit:
  "\<not> index < m_loadedTextures s \<Longrightarrow> FindTextureID_loop s tg t index b = Inr t"
  by (subst FindTextureID_loop.simps) simp

lemma FindTextureID_loop_found:
  "FindTextureID_loop s tg t index True = Inr t"
  by (subst FindTextureID_loop.simps) simp

lemma FindTextureID_loop_step:
  "index < m_loadedTextures s \<Longrightarrow> in_bounds s index \<Longrightarrow>
   FindTextureID_loop s tg t index False =
     (if TEXTURE_INFO.tag (m_textureIDs s ! nat index) = tg
      then Inr (sint (ID (m_textureIDs s ! nat index)))
      else FindTextureID_loop s tg t (index + 1) False)"
  by (subst FindTextureID_loop.simps) (simp add: FindTextureID_loop_found)

lemma FindTextureID_loop_scan:
  assumes "0 \<le> k" "k \<le> m_loadedTextures s" "m_loadedTextures s \<le> int (length (m_textureIDs s))"
  shows "FindTextureID_loop s tg t k False =
           Inr (case first_index (\<lambda>e. TEXTURE_INFO.tag e = tg) (drop (nat k) (loaded_textures s)) of
                  None \<Rightarrow> t | Some j \<Rightarrow> sint (ID (m_textureIDs s ! (nat k + j))))"
  using assms
proof (induction "nat (m_loadedTextures s - k)" arbitrary: k t)
  case 0
  then have "k = m_loadedTextures s" by simp
  then show ?case
    by (simp add: FindTextureID_loop_exit loaded_textures_def)
next
  case (Suc n)
  then have lt: "k < m_loadedTextures s" by simp
  have ib: "in_bounds s k"
    using Suc.prems lt by (simp add: in_bounds_def)
  note dl = drop_loaded [OF Suc.prems(1) lt Suc.prems(3)]
  show ?case
  proof (cases "TEXTURE_INFO.tag (m_textureIDs s ! nat k) = tg")
    case True
    then show ?thesis
      using lt ib by (simp add: FindTextureID_loop_step dl)
  next
    case False
    have "FindTextureID_loop s tg t (k + 1) False =
           Inr (case first_index (\<lambda>e. TEXTURE_INFO.tag e = tg) (drop (nat (k + 1)) (loaded_textures s)) of
                  None \<Rightarrow> t | Some j \<Rightarrow> sint (ID (m_textureIDs s ! (nat (k + 1) + j))))"
      using Suc.hyps(2) Suc.prems lt by (intro Suc.hyps(1)) auto
    moreover have "nat (k + 1) = Suc (nat k)"
      using Suc.prems by simp
    ultimately show ?thesis
      using lt ib False
      by (simp add: FindTextureID_loop_step dl split: option.splits)
  qed
qed

text \<open>
  Claim C3. Whenever the loaded-texture count does not exceed the array, \<open>FindTextureID\<close>
  scans the loaded entries in registration order and returns the ID (read as an \<open>int\<close>)
  of the first entry whose tag equals the given tag, and \<open>- 1\<close> when no loaded entry has
  the tag; \<open>FindTextureSlot\<close> returns that entry's index instead, and \<open>- 1\<close> likewise.
\<close>

theorem FindTexture_linear_scan:
  assumes "m_loadedTextures s \<le> int (length (m_textureIDs s))"
  shows "FindTextureID s tg =
           Inr (case first_index (\<lambda>e. TEXTURE_INFO.tag e = tg) (loaded_textures s) of
                  None \<Rightarrow> - 1 | Some i \<Rightarrow> sint (ID (m_textureIDs s ! i))) \<and>
         FindTextureSlot s tg =
           Inr (case first_index (\<lambda>e. TEXTURE_INFO.tag e = tg) (loaded_textures s) of
                  None \<Rightarrow> - 1 | Some i \<Rightarrow> int i)"
proof (cases "0 \<le> m_loadedTextures s")
  case True
  show ?thesis
    using FindTextureID_loop_scan [of 0 s tg "- 1"] FindTextureSlot_loop_scan [of 0 s tg "- 1"]
      True assms
    by (simp add: FindTextureID_def FindTextureSlot_def split: option.split)
next
  case False
  then have "loaded_textures s = []"
    by (simp add: loaded_textures_def)
  with False show ?thesis
    by (simp add: FindTextureID_def FindTextureSlot_def FindTextureID_loop_exit
        FindTextureSlot_loop_exit)
qed

theorem FindTexture_linear_scan_witness:
  "m_loadedTextures example_scene \<le> int (length (m_textureIDs example_scene)) \<and>
   FindTextureID example_scene ''wood'' = Inr 2 \<and>
   FindTextureSlot example_scene ''wood'' = Inr 1 \<and>
   FindTextureID example_scene ''grass'' = Inr (- 1) \<and>
   FindTextureSlot example_scene ''grass'' = Inr (- 1)"
  using FindTexture_linear_scan [of example_scene "''wood''"]
    FindTexture_linear_scan [of example_scene "''grass''"]
  by (simp add: example_scene_def loaded_textures_def)

section \<open>The material registry\<close>

lemma FindMaterial_loop_exit:
  "\<not> index < length (m_objectMaterials s) \<Longrightarrow> FindMaterial_loop s tg m index b = m"
  by (subst FindMaterial_loop.simps) simp

lemma FindMaterial_loop_found: "FindMaterial_loop s tg m index True = m"
  by (subst FindMaterial_loop.simps) simp

lemma FindMaterial_loop_step:
  "index < length (m_objectMaterials s) \<Longrightarrow>
   FindMaterial_loop s tg m index False =
     (if OBJECT_MATERIAL.tag (m_objectMaterials s ! index) = tg then
        m\<lparr>ambientColor := ambientColor (m_objectMaterials s ! index),
          ambientStrength := ambientStrength (m_objectMaterials s ! index),
          diffuseColor := diffuseColor (m_objectMaterials s ! index),
          specularColor := specularColor (m_objectMaterials s ! index),
          shininess := shininess (m_objectMaterials s ! index)\<rparr>
      else FindMaterial_loop s tg m (index + 1) False)"
  by (subst FindMaterial_loop.simps) (simp add: FindMaterial_loop_found)

lemma FindMaterial_loop_scan:
  assumes "k \<le> length (m_objectMaterials s)"
  shows "FindMaterial_loop s tg m k False =
           (case first_index (\<lambda>e. OBJECT_MATERIAL.tag e = tg) (drop k (m_objectMaterials s)) of
              None \<Rightarrow> m
            | Some j \<Rightarrow> copy_material (m_objectMaterials s ! (k + j)) m)"
  using assms
proof (induction "length (m_objectMaterials s) - k" arbitrary: k)
  case 0
  then show ?case by (simp add: FindMaterial_loop_exit)
next
  case (Suc n)
  then have lt: "k < length (m_objectMaterials s)" by simp
  then have dl: "drop k (m_objectMaterials s) =
      (m_objectMaterials s ! k) # drop (Suc k) (m_objectMaterials s)"
    by (simp add: Cons_nth_drop_Suc)
  show ?case
  proof (cases "OBJECT_MATERIAL.tag (m_objectMaterials s ! k) = tg")
    case True
    then show ?thesis
      using lt by (simp add: FindMaterial_loop_step dl copy_material_def)
  next
    case False
    have "FindMaterial_loop s tg m (Suc k) False =
           (case first_index (\<lambda>e. OBJECT_MATERIAL.tag e = tg) (drop (Suc k) (m_objectMaterials s)) of
              None \<Rightarrow> m
            | Some j \<Rightarrow> copy_material (m_objectMaterials s ! (Suc k + j)) m)"
      using Suc.hyps(2) lt by (intro Suc.hyps(1)) auto
    then show ?thesis
      using lt False by (simp add: FindMaterial_loop_step dl split: option.splits)
  qed
qed

lemma FindMaterial_eq:
  "FindMaterial s tg m =
     (m_objectMaterials s \<noteq> [],
      case first_index (\<lambda>e. OBJECT_MATERIAL.tag e = tg) (m_objectMaterials s) of
        None \<Rightarrow> m
      | Some j \<Rightarrow> copy_material (m_objectMaterials s ! j) m)"
  using FindMaterial_loop_scan [of 0 s tg m]
  by (simp add: FindMaterial_def split: option.splits)

lemma materials_defined:
  "m_objectMaterials (DefineObjectMaterials s) = m_objectMaterials s @ [shinyMaterial, dullMaterial]"
  by (simp add: DefineObjectMaterials_def push_back_def Let_def)

text \<open>
  Claim C2. \<open>FindMaterial\<close> returns true on every non-empty registry, also for a tag no
  material carries: after \<open>DefineObjectMaterials\<close> the registry holds "metal" and "wood",
  and the lookup of "glass" returns true and leaves the output parameter as it was.
\<close>

theorem FindMaterial_true_for_undefined_tag:
  "map OBJECT_MATERIAL.tag (m_objectMaterials (DefineObjectMaterials empty_scene)) = [''metal'', ''wood''] \<and>
   FindMaterial (DefineObjectMaterials empty_scene) ''glass'' dullMaterial = (True, dullMaterial)"
  by (simp add: FindMaterial_eq materials_defined empty_scene_def SceneManager_new_def shinyMaterial_def dullMaterial_def)

text \<open>
  Claim C7. On an empty registry \<open>DefineObjectMaterials\<close> leaves exactly two entries:
  "metal" with shininess 64 and specular colour (0.5, 0.5, 0.5), and "wood" with shininess
  16 and specular colour (0.1, 0.1, 0.1), each with its ambient colour, ambient strength,
  diffuse colour, specular colour and shininess.
\<close>

theorem DefineObjectMaterials_registry:
  assumes "m_objectMaterials s = []"
  shows "m_objectMaterials (DefineObjectMaterials s) =
           [\<lparr>ambientColor = (0.3, 0.1, 0.1), ambientStrength = 0.1,
             diffuseColor = (0.3, 0.3, 0.3), specularColor = (0.5, 0.5, 0.5),
             shininess = 64.0, OBJECT_MATERIAL.tag = ''metal''\<rparr>,
            \<lparr>ambientColor = (0.1, 0.1, 0.1), ambientStrength = 0.1,
             diffuseColor = (0.3, 0.3, 0.3), specularColor = (0.1, 0.1, 0.1),
             shininess = 16.0, OBJECT_MATERIAL.tag = ''wood''\<rparr>]"
  using assms by (simp add: materials_defined shinyMaterial_def dullMaterial_def)

theorem DefineObjectMaterials_registry_witness:
  "m_objectMaterials empty_scene = [] \<and>
   length (m_objectMaterials (DefineObjectMaterials empty_scene)) = 2 \<and>
   map OBJECT_MATERIAL.tag (m_objectMaterials (DefineObjectMaterials empty_scene)) = [''metal'', ''wood''] \<and>
   map shininess (m_objectMaterials (DefineObjectMaterials empty_scene)) = [64, 16] \<and>
   map specularColor (m_objectMaterials (DefineObjectMaterials empty_scene)) =
     [(0.5, 0.5, 0.5), (0.1, 0.1, 0.1)]"
proof -
  have e: "m_objectMaterials empty_scene = []"
    by (simp add: empty_scene_def SceneManager_new_def)
  show ?thesis
    using DefineObjectMaterials_registry [OF e] e by simp
qed

section \<open>Creating textures\<close>

text \<open>The three outcomes of \<open>CreateGLTexture\<close>.\<close>

lemma CreateGLTexture_failure:
  assumes "\<not> decodes w filename"
  shows "CreateGLTexture filename tg (w, s) =
           Inr (False,
             (if stbi_load w filename = None then w
              else glBindTexture (fst (glGenTextures w)) (snd (glGenTextures w))), s)"
proof (cases "stbi_load w filename")
  case None
  then show ?thesis
    by (simp add: CreateGLTexture_def)
next
  case (Some img)
  with assms have "\<not> (colorChannels img = 3 \<or> colorChannels img = 4)"
    by (simp add: decodes_def)
  with Some show ?thesis
    by (simp add: CreateGLTexture_def Let_def split_beta)
qed

lemma CreateGLTexture_success:
  assumes "decodes w filename" "in_bounds s (m_loadedTextures s)"
  shows "CreateGLTexture filename tg (w, s) =
           Inr (True,
             glBindTexture 0 (glBindTexture (fst (glGenTextures w)) (snd (glGenTextures w))),
             s\<lparr>m_textureIDs := (m_textureIDs s)
                  [nat (m_loadedTextures s) := \<lparr>TEXTURE_INFO.tag = tg, ID = fst (glGenTextures w)\<rparr>],
               m_loadedTextures := m_loadedTextures s + 1\<rparr>)"
proof -
  from assms(1) obtain img where
    img: "stbi_load w filename = Some img" "colorChannels img = 3 \<or> colorChannels img = 4"
    by (auto simp: decodes_def split: option.splits)
  have entry: "(m_textureIDs s ! nat (m_loadedTextures s))
          \<lparr>ID := fst (glGenTextures w), TEXTURE_INFO.tag := tg\<rparr> =
        \<lparr>TEXTURE_INFO.tag = tg, ID = fst (glGenTextures w)\<rparr>"
    by simp
  have "CreateGLTexture filename tg (w, s) =
           Inr (True,
             glBindTexture 0 (glBindTexture (fst (glGenTextures w)) (snd (glGenTextures w))),
             s\<lparr>m_textureIDs := (m_textureIDs s)
                  [nat (m_loadedTextures s) :=
                     (m_textureIDs s ! nat (m_loadedTextures s))
                       \<lparr>ID := fst (glGenTextures w), TEXTURE_INFO.tag := tg\<rparr>],
               m_loadedTextures := m_loadedTextures s + 1\<rparr>)"
    using img assms(2) by (simp add: CreateGLTexture_def Let_def split_beta)
  then show ?thesis
    by (simp only: entry)
qed

lemma CreateGLTexture_overflow:
  assumes "decodes w filename" "\<not> in_bounds s (m_loadedTextures s)"
  shows "CreateGLTexture filename tg (w, s) = Inl (OutOfBounds (m_loadedTextures s))"
proof -
  from assms(1) obtain img where
    img: "stbi_load w filename = Some img" "colorChannels img = 3 \<or> colorChannels img = 4"
    by (auto simp: decodes_def split: option.splits)
  with assms(2) show ?thesis
    by (simp add: CreateGLTexture_def Let_def split_beta)
qed

lemma loaded_textures_append:
  assumes "in_bounds s (m_loadedTextures s)"
  shows "loaded_textures
           (s\<lparr>m_textureIDs := (m_textureIDs s)[nat (m_loadedTextures s) := e],
              m_loadedTextures := m_loadedTextures s + 1\<rparr>) = loaded_textures s @ [e]"
proof -
  let ?n = "nat (m_loadedTextures s)"
  have n: "?n < length (m_textureIDs s)" "nat (m_loadedTextures s + 1) = Suc ?n"
    using assms by (auto simp: in_bounds_def)
  have "take (Suc ?n) ((m_textureIDs s)[?n := e]) = take ?n (m_textureIDs s) @ [e]"
    using n(1) by (simp add: take_Suc_conv_app_nth)
  then show ?thesis
    using n(2) by (simp add: loaded_textures_def)
qed

text \<open>
  Claim C5. When the registry has a free entry at index \<open>m_loadedTextures\<close>,
  \<open>CreateGLTexture\<close> returns true exactly when the file decodes to an image with 3 or 4
  colour channels, and false when the file cannot be read or the image has another channel
  count. On success the loaded registry is the old one with one entry appended, the tag
  paired with the texture name \<open>glGenTextures\<close> just produced, and the count is one
  higher; on failure the scene manager is unchanged.
\<close>

theorem CreateGLTexture_result:
  assumes "in_bounds s (m_loadedTextures s)"
  shows "\<exists>w' s'. CreateGLTexture filename tg (w, s) = Inr (decodes w filename, w', s') \<and>
           (if decodes w filename then
              loaded_textures s' =
                loaded_textures s @ [\<lparr>TEXTURE_INFO.tag = tg, ID = fst (glGenTextures w)\<rparr>] \<and>
              m_loadedTextures s' = m_loadedTextures s + 1 \<and>
              length (m_textureIDs s') = length (m_textureIDs s) \<and>
              m_objectMaterials s' = m_objectMaterials s \<and>
              m_pShaderManager s' = m_pShaderManager s
            else s' = s)"
proof (cases "decodes w filename")
  case True
  then show ?thesis
    using CreateGLTexture_success [OF True assms, of tg] loaded_textures_append [OF assms]
    by simp
next
  case False
  then show ?thesis
    using CreateGLTexture_failure [OF False, of tg s] by simp
qed

theorem CreateGLTexture_result_witness:
  "in_bounds empty_scene (m_loadedTextures empty_scene) \<and>
   decodes example_world ''textures/Brick.jpg'' \<and>
   \<not> decodes example_world ''textures/glass.jpg'' \<and>
   \<not> decodes example_world ''textures/roof.jpg'' \<and>
   (\<exists>w' s'. CreateGLTexture ''textures/Brick.jpg'' ''brick'' (example_world, empty_scene) =
        Inr (True, w', s') \<and>
      loaded_textures s' = [\<lparr>TEXTURE_INFO.tag = ''brick'', ID = 1\<rparr>] \<and>
      m_loadedTextures s' = 1) \<and>
   (\<exists>w'. CreateGLTexture ''textures/glass.jpg'' ''window'' (example_world, empty_scene) =
        Inr (False, w', empty_scene)) \<and>
   (\<exists>w'. CreateGLTexture ''textures/roof.jpg'' ''roof'' (example_world, empty_scene) =
        Inr (False, w', empty_scene))"
proof -
  have b: "in_bounds empty_scene (m_loadedTextures empty_scene)"
    by (simp add: in_bounds_def empty_scene_def SceneManager_new_def texture_capacity_def)
  have d: "decodes example_world ''textures/Brick.jpg''"
    "\<not> decodes example_world ''textures/glass.jpg''"
    "\<not> decodes example_world ''textures/roof.jpg''"
    by (simp_all add: decodes_def stbi_load_def example_world_def)
  have e: "loaded_textures empty_scene = []" "m_loadedTextures empty_scene = 0"
    by (simp_all add: loaded_textures_def empty_scene_def SceneManager_new_def)
  have n: "fst (glGenTextures example_world) = 1"
    by (simp add: glGenTextures_def example_world_def)
  show ?thesis
    using CreateGLTexture_result [OF b, of "''textures/Brick.jpg''" "''brick''" example_world]
      CreateGLTexture_result [OF b, of "''textures/glass.jpg''" "''window''" example_world]
      CreateGLTexture_result [OF b, of "''textures/roof.jpg''" "''roof''" example_world]
      b d e n
    by auto
qed

text \<open>
  Claim C9. Whenever \<open>CreateGLTexture\<close> returns false, the scene manager it returns is
  the one it received: no entry of \<open>m_textureIDs\<close> is modified and
  \<open>m_loadedTextures\<close> keeps its value.
\<close>

theorem CreateGLTexture_failure_atomic:
  assumes "CreateGLTexture filename tg (w, s) = Inr (False, w', s')"
  shows "s' = s \<and> m_textureIDs s' = m_textureIDs s \<and> m_loadedTextures s' = m_loadedTextures s"
proof (cases "decodes w filename")
  case True
  then show ?thesis
    using assms CreateGLTexture_success [OF True, of s tg] CreateGLTexture_overflow [OF True, of s tg]
    by (cases "in_bounds s (m_loadedTextures s)") simp_all
next
  case False
  then show ?thesis
    using assms CreateGLTexture_failure [OF False, of tg s] by simp
qed

theorem CreateGLTexture_failure_atomic_witness:
  "\<exists>w' s'. CreateGLTexture ''textures/glass.jpg'' ''window'' (example_world, example_scene) =
       Inr (False, w', s') \<and>
     m_textureIDs s' = m_textureIDs example_scene \<and>
     m_loadedTextures s' = 3"
proof -
  have "\<not> decodes example_world ''textures/glass.jpg''"
    by (simp add: decodes_def stbi_load_def example_world_def)
  from CreateGLTexture_failure [OF this, of "''window''" example_scene]
  obtain w' s' where
    eq: "CreateGLTexture ''textures/glass.jpg'' ''window'' (example_world, example_scene) =
      Inr (False, w', s')"
    by blast
  from CreateGLTexture_failure_atomic [OF eq] have "s' = example_scene"
    by simp
  with eq show ?thesis
    by (auto simp: example_scene_def)
qed

section \<open>Binding the loaded textures\<close>

lemma BindGLTextures_loop_exit:
  "\<not> i < m_loadedTextures s \<Longrightarrow> BindGLTextures_loop s i w = Inr w"
  by (subst BindGLTextures_loop.simps) simp

lemma BindGLTextures_loop_step:
  "i < m_loadedTextures s \<Longrightarrow> in_bounds s i \<Longrightarrow>
   BindGLTextures_loop s i w =
     BindGLTextures_loop s (i + 1)
       (glBindTexture (ID (m_textureIDs s ! nat i)) (glActiveTexture (GL_TEXTURE0 + i) w))"
  by (subst BindGLTextures_loop.simps) simp

lemma bind_on_unit:
  "gl_texture_binding_2d (glBindTexture t (glActiveTexture u w)) =
     (gl_texture_binding_2d w)(u := t)"
  by (simp add: glBindTexture_def glActiveTexture_def)

lemma bind_keeps_calls:
  "calls (glBindTexture t (glActiveTexture u w)) = calls w"
  by (simp add: glBindTexture_def glActiveTexture_def)

lemma BindGLTextures_loop_binds:
  assumes "0 \<le> i" "i \<le> m_loadedTextures s" "m_loadedTextures s \<le> int (length (m_textureIDs s))"
  shows "\<exists>w'. BindGLTextures_loop s i w = Inr w' \<and>
           (\<forall>j. i \<le> j \<and> j < m_loadedTextures s \<longrightarrow>
              gl_texture_binding_2d w' (GL_TEXTURE0 + j) = ID (m_textureIDs s ! nat j)) \<and>
           (\<forall>j. j < i \<longrightarrow>
              gl_texture_binding_2d w' (GL_TEXTURE0 + j) = gl_texture_binding_2d w (GL_TEXTURE0 + j)) \<and>
           calls w' = calls w"
  using assms
proof (induction "nat (m_loadedTextures s - i)" arbitrary: i w)
  case 0
  then have "\<not> i < m_loadedTextures s" by simp
  then show ?case
    by (auto simp: BindGLTextures_loop_exit)
next
  case (Suc n)
  then have lt: "i < m_loadedTextures s" by simp
  have ib: "in_bounds s i"
    using Suc.prems lt by (simp add: in_bounds_def)
  let ?w1 = "glBindTexture (ID (m_textureIDs s ! nat i)) (glActiveTexture (GL_TEXTURE0 + i) w)"
  have "\<exists>w'. BindGLTextures_loop s (i + 1) ?w1 = Inr w' \<and>
           (\<forall>j. i + 1 \<le> j \<and> j < m_loadedTextures s \<longrightarrow>
              gl_texture_binding_2d w' (GL_TEXTURE0 + j) = ID (m_textureIDs s ! nat j)) \<and>
           (\<forall>j. j < i + 1 \<longrightarrow>
              gl_texture_binding_2d w' (GL_TEXTURE0 + j) = gl_texture_binding_2d ?w1 (GL_TEXTURE0 + j)) \<and>
           calls w' = calls ?w1"
    using Suc.hyps(2) Suc.prems lt by (intro Suc.hyps(1)) auto
  then obtain w' where
    run: "BindGLTextures_loop s (i + 1) ?w1 = Inr w'" and
    above: "\<And>j. i + 1 \<le> j \<Longrightarrow> j < m_loadedTextures s \<Longrightarrow>
              gl_texture_binding_2d w' (GL_TEXTURE0 + j) = ID (m_textureIDs s ! nat j)" and
    below: "\<And>j. j < i + 1 \<Longrightarrow>
              gl_texture_binding_2d w' (GL_TEXTURE0 + j) = gl_texture_binding_2d ?w1 (GL_TEXTURE0 + j)" and
    same: "calls w' = calls ?w1"
    by blast
  have "BindGLTextures_loop s i w = Inr w'"
    using run lt ib by (simp add: BindGLTextures_loop_step)
  moreover have "gl_texture_binding_2d w' (GL_TEXTURE0 + j) = ID (m_textureIDs s ! nat j)"
    if "i \<le> j" "j < m_loadedTextures s" for j
  proof (cases "j = i")
    case True
    then show ?thesis
      using below [of i] by (simp add: bind_on_unit)
  next
    case False
    with that show ?thesis
      using above [of j] by simp
  qed
  moreover have "gl_texture_binding_2d w' (GL_TEXTURE0 + j) = gl_texture_binding_2d w (GL_TEXTURE0 + j)"
    if "j < i" for j
    using that below [of j] by (simp add: bind_on_unit)
  moreover have "calls w' = calls w"
    using same by (simp add: bind_keeps_calls)
  ultimately show ?case
    by blast
qed

section \<open>The scene-preparation sequence\<close>

lemma then_do_Inr [simp]: "then_do (Inr x) f = f x"
  by (simp add: then_do_def)

lemma then_do_Inl [simp]: "then_do (Inl e) f = Inl e"
  by (simp add: then_do_def)


lemma create_textures_append:
  "create_textures (xs @ ys) ws = then_do (create_textures xs ws) (create_textures ys)"
proof (induction xs arbitrary: ws)
  case Nil
  show ?case by simp
next
  case (Cons ft fts)
  show ?case
    by (cases "CreateGLTexture (fst ft) (snd ft) ws") (auto simp: Cons.IH)
qed

text \<open>
  A call that returns leaves every entry of the array as it was, except the one at index
  \<open>m_loadedTextures\<close>; and it returns true only if that index lies inside the array.
\<close>

lemma CreateGLTexture_writes_one_entry:
  assumes "CreateGLTexture filename tg (w, s) = Inr (b, w', s')"
  shows "length (m_textureIDs s') = length (m_textureIDs s) \<and>
         (\<forall>i. i \<noteq> nat (m_loadedTextures s) \<longrightarrow> m_textureIDs s' ! i = m_textureIDs s ! i) \<and>
         (b \<longrightarrow> in_bounds s (m_loadedTextures s))"
proof (cases "decodes w filename")
  case True
  show ?thesis
  proof (cases "in_bounds s (m_loadedTextures s)")
    case True
    with assms CreateGLTexture_success [OF \<open>decodes w filename\<close> True, of tg] show ?thesis
      by auto
  next
    case False
    with assms CreateGLTexture_overflow [OF \<open>decodes w filename\<close> False, of tg] show ?thesis
      by simp
  qed
next
  case False
  with assms CreateGLTexture_failure [OF False, of tg s] show ?thesis
    by simp
qed



lemmas run_simps =
  PrepareScene_def CreateGLTexture_def stbi_load_def glGenTextures_def
  glBindTexture_def glActiveTexture_def issue_def in_bounds_def Let_def
  decoding_world_def SceneManager_new_def texture_capacity_def count_after_def
  BindGLTextures_def BindGLTextures_loop_step BindGLTextures_loop_exit eval_nat_numeral
  load_meshes_def scene_textures_def


text \<open>
  The same happens without any assumption on the constructor when \<open>PrepareScene\<close> runs
  twice: the first run fills twelve entries, the second overflows at its fifth texture.
\<close>

lemma PrepareScene_twice_overflows:
  "count_after (PrepareScene (decoding_world, empty_scene)) = Inr 12 \<and>
   then_do (PrepareScene (decoding_world, empty_scene)) PrepareScene = Inl (OutOfBounds 16)"
  by (simp add: empty_scene_def run_simps)




lemma PrepareScene_example:
  "\<exists>w'. PrepareScene (example_world, empty_scene) = Inr (w', prepared_scene)"
  by (simp add: PrepareScene_def CreateGLTexture_def stbi_load_def glGenTextures_def
      glBindTexture_def glActiveTexture_def issue_def in_bounds_def Let_def
      example_world_def empty_scene_def SceneManager_new_def prepared_scene_def texture_capacity_def
      BindGLTextures_def BindGLTextures_loop_step BindGLTextures_loop_exit eval_nat_numeral)



section \<open>Tags, slots and texture units\<close>

text \<open>
  \<open>example_scene\<close> is what three successful \<open>CreateGLTexture\<close> calls leave, the last
  two under the same tag.
\<close>

lemma example_scene_reachable:
  "\<exists>w'. create_textures
          [(''textures/Brick.jpg'', ''brick''), (''textures/door.jpg'', ''wood''),
           (''textures/Brick.jpg'', ''wood'')] (example_world, empty_scene) =
        Inr (w', example_scene)"
  by (simp add: CreateGLTexture_def stbi_load_def glGenTextures_def
      glBindTexture_def glActiveTexture_def in_bounds_def Let_def
      example_world_def empty_scene_def SceneManager_new_def example_scene_def texture_capacity_def eval_nat_numeral)

text \<open>
  Claim C6 as stated fails when two textures are registered under one tag: in
  \<open>example_scene\<close> the texture at index 2 carries the tag "wood", and the slot found for
  "wood" is 1.
\<close>

theorem slot_of_duplicate_tag:
  "m_loadedTextures example_scene = 3 \<and>
   TEXTURE_INFO.tag (m_textureIDs example_scene ! 2) = ''wood'' \<and>
   FindTextureSlot example_scene (TEXTURE_INFO.tag (m_textureIDs example_scene ! 2)) = Inr 1 \<and>
   FindTextureSlot example_scene (TEXTURE_INFO.tag (m_textureIDs example_scene ! 2)) \<noteq> Inr 2"
proof -
  have "m_loadedTextures example_scene \<le> int (length (m_textureIDs example_scene))"
    by (simp add: example_scene_def)
  from FindTextureSlot_loop_scan [of 0 example_scene "''wood''" "- 1"] this
  have "FindTextureSlot example_scene ''wood'' = Inr 1"
    by (simp add: FindTextureSlot_def example_scene_def loaded_textures_def)
  then show ?thesis
    by (simp add: example_scene_def)
qed

text \<open>
  Claim C6, amended. With the count not beyond the array, \<open>FindTextureSlot\<close> finds for the
  tag of every loaded texture the first index registered under that tag: an index not
  above the texture's own, carrying the same tag, and the texture's own index whenever no
  earlier entry has the same tag. \<open>BindGLTextures\<close> binds the texture stored at each
  index \<open>i\<close> below the count on unit \<open>GL_TEXTURE0 + i\<close>. So the slot returned for a tag
  names the unit that holds the first texture registered under that tag.
\<close>

theorem texture_slot_names_unit:
  assumes "m_loadedTextures s \<le> int (length (m_textureIDs s))"
  shows "\<exists>w'. BindGLTextures s w = Inr w' \<and>
           (\<forall>i < nat (m_loadedTextures s).
              gl_texture_binding_2d w' (GL_TEXTURE0 + int i) = ID (m_textureIDs s ! i) \<and>
              (\<exists>j \<le> i. FindTextureSlot s (TEXTURE_INFO.tag (m_textureIDs s ! i)) = Inr (int j) \<and>
                 TEXTURE_INFO.tag (m_textureIDs s ! j) = TEXTURE_INFO.tag (m_textureIDs s ! i) \<and>
                 (\<forall>k < j. TEXTURE_INFO.tag (m_textureIDs s ! k) \<noteq> TEXTURE_INFO.tag (m_textureIDs s ! i)) \<and>
                 ((\<forall>k < i. TEXTURE_INFO.tag (m_textureIDs s ! k) \<noteq> TEXTURE_INFO.tag (m_textureIDs s ! i))
                    \<longrightarrow> j = i) \<and>
                 gl_texture_binding_2d w' (GL_TEXTURE0 + int j) = ID (m_textureIDs s ! j)))"
proof (cases "0 \<le> m_loadedTextures s")
  case False
  then show ?thesis
    by (simp add: BindGLTextures_def BindGLTextures_loop_exit)
next
  case pos: True
    from BindGLTextures_loop_binds [of 0 s w] pos assms
    obtain w' where
      run: "BindGLTextures s w = Inr w'" and
      units: "\<And>j. 0 \<le> j \<Longrightarrow> j < m_loadedTextures s \<Longrightarrow>
                gl_texture_binding_2d w' (GL_TEXTURE0 + j) = ID (m_textureIDs s ! nat j)"
      by (auto simp: BindGLTextures_def)
    have unit: "gl_texture_binding_2d w' (GL_TEXTURE0 + int i) = ID (m_textureIDs s ! i)"
      if "i < nat (m_loadedTextures s)" for i
      using that units [of "int i"] by simp
    have slot: "\<exists>j \<le> i. FindTextureSlot s (TEXTURE_INFO.tag (m_textureIDs s ! i)) = Inr (int j) \<and>
                   TEXTURE_INFO.tag (m_textureIDs s ! j) = TEXTURE_INFO.tag (m_textureIDs s ! i) \<and>
                   (\<forall>k < j. TEXTURE_INFO.tag (m_textureIDs s ! k) \<noteq> TEXTURE_INFO.tag (m_textureIDs s ! i)) \<and>
                   ((\<forall>k < i. TEXTURE_INFO.tag (m_textureIDs s ! k) \<noteq> TEXTURE_INFO.tag (m_textureIDs s ! i))
                      \<longrightarrow> j = i)"
      if i: "i < nat (m_loadedTextures s)" for i
    proof -
      let ?tg = "TEXTURE_INFO.tag (m_textureIDs s ! i)"
      let ?P = "\<lambda>e. TEXTURE_INFO.tag e = ?tg"
      have len: "length (loaded_textures s) = nat (m_loadedTextures s)"
        using pos assms by (simp add: loaded_textures_def)
      have nth: "loaded_textures s ! k = m_textureIDs s ! k" if "k < nat (m_loadedTextures s)" for k
        using that by (simp add: loaded_textures_def)
      have "loaded_textures s ! i \<in> set (loaded_textures s)"
        using i len by simp
      then have "first_index ?P (loaded_textures s) \<noteq> None"
        using nth [OF i] by (auto simp: first_index_None)
      then obtain j where j: "first_index ?P (loaded_textures s) = Some j"
        by blast
      then have jl: "j < length (loaded_textures s)" and jp: "?P (loaded_textures s ! j)" and
        jm: "\<And>k. k < j \<Longrightarrow> \<not> ?P (loaded_textures s ! k)"
        by (simp_all add: first_index_Some)
      have ji: "j \<le> i"
      proof (rule ccontr)
        assume "\<not> j \<le> i"
        then have "i < j" by simp
        from jm [OF this] nth [OF i] show False by simp
      qed
      have "FindTextureSlot s ?tg = Inr (int j)"
        using FindTextureSlot_loop_scan [of 0 s ?tg "- 1"] pos assms j
        by (simp add: FindTextureSlot_def)
      moreover have "TEXTURE_INFO.tag (m_textureIDs s ! j) = ?tg"
        using jp jl len nth [of j] by simp
      moreover have "\<forall>k < j. TEXTURE_INFO.tag (m_textureIDs s ! k) \<noteq> ?tg"
      proof (intro allI impI)
        fix k
        assume kj: "k < j"
        then have "k < nat (m_loadedTextures s)"
          using jl len by simp
        from jm [OF kj] nth [OF this] show "TEXTURE_INFO.tag (m_textureIDs s ! k) \<noteq> ?tg"
          by simp
      qed
      moreover have "(\<forall>k < i. TEXTURE_INFO.tag (m_textureIDs s ! k) \<noteq> ?tg) \<longrightarrow> j = i"
      proof
        assume none: "\<forall>k < i. TEXTURE_INFO.tag (m_textureIDs s ! k) \<noteq> ?tg"
        show "j = i"
        proof (rule ccontr)
          assume "j \<noteq> i"
          with ji have "j < i" by simp
          with none have "TEXTURE_INFO.tag (m_textureIDs s ! j) \<noteq> ?tg" by simp
          with calculation(2) show False by simp
        qed
      qed
      ultimately show ?thesis
        using ji by (intro exI [of _ j]) simp
    qed
    have both: "gl_texture_binding_2d w' (GL_TEXTURE0 + int i) = ID (m_textureIDs s ! i) \<and>
        (\<exists>j \<le> i. FindTextureSlot s (TEXTURE_INFO.tag (m_textureIDs s ! i)) = Inr (int j) \<and>
           TEXTURE_INFO.tag (m_textureIDs s ! j) = TEXTURE_INFO.tag (m_textureIDs s ! i) \<and>
           (\<forall>k < j. TEXTURE_INFO.tag (m_textureIDs s ! k) \<noteq> TEXTURE_INFO.tag (m_textureIDs s ! i)) \<and>
           ((\<forall>k < i. TEXTURE_INFO.tag (m_textureIDs s ! k) \<noteq> TEXTURE_INFO.tag (m_textureIDs s ! i))
              \<longrightarrow> j = i) \<and>
           gl_texture_binding_2d w' (GL_TEXTURE0 + int j) = ID (m_textureIDs s ! j))"
      if i: "i < nat (m_loadedTextures s)" for i
    proof -
      from slot [OF i] obtain j where j: "j \<le> i"
        "FindTextureSlot s (TEXTURE_INFO.tag (m_textureIDs s ! i)) = Inr (int j)"
        "TEXTURE_INFO.tag (m_textureIDs s ! j) = TEXTURE_INFO.tag (m_textureIDs s ! i)"
        "\<forall>k < j. TEXTURE_INFO.tag (m_textureIDs s ! k) \<noteq> TEXTURE_INFO.tag (m_textureIDs s ! i)"
        "(\<forall>k < i. TEXTURE_INFO.tag (m_textureIDs s ! k) \<noteq> TEXTURE_INFO.tag (m_textureIDs s ! i))
           \<longrightarrow> j = i"
        by blast
      have "gl_texture_binding_2d w' (GL_TEXTURE0 + int j) = ID (m_textureIDs s ! j)"
        using unit [of j] j(1) i by simp
      with j have "\<exists>j \<le> i. FindTextureSlot s (TEXTURE_INFO.tag (m_textureIDs s ! i)) = Inr (int j) \<and>
           TEXTURE_INFO.tag (m_textureIDs s ! j) = TEXTURE_INFO.tag (m_textureIDs s ! i) \<and>
           (\<forall>k < j. TEXTURE_INFO.tag (m_textureIDs s ! k) \<noteq> TEXTURE_INFO.tag (m_textureIDs s ! i)) \<and>
           ((\<forall>k < i. TEXTURE_INFO.tag (m_textureIDs s ! k) \<noteq> TEXTURE_INFO.tag (m_textureIDs s ! i))
              \<longrightarrow> j = i) \<and>
           gl_texture_binding_2d w' (GL_TEXTURE0 + int j) = ID (m_textureIDs s ! j)"
        by (intro exI [of _ j]) simp
      with unit [OF i] show ?thesis
        by simp
    qed
    show ?thesis
      using run both by (intro exI [of _ w']) simp
qed

theorem texture_slot_names_unit_witness:
  "m_loadedTextures prepared_scene \<le> int (length (m_textureIDs prepared_scene)) \<and>
   (1::nat) < nat (m_loadedTextures prepared_scene) \<and>
   TEXTURE_INFO.tag (m_textureIDs prepared_scene ! 1) = ''door'' \<and>
   TEXTURE_INFO.tag (m_textureIDs prepared_scene ! 0) \<noteq> ''door'' \<and>
   (\<exists>w'. BindGLTextures prepared_scene example_world = Inr w' \<and>
      FindTextureSlot prepared_scene ''door'' = Inr 1 \<and>
      gl_texture_binding_2d w' (GL_TEXTURE0 + 1) = 2)"
proof -
  have a: "m_loadedTextures prepared_scene \<le> int (length (m_textureIDs prepared_scene))"
    by (simp add: prepared_scene_def)
  have i: "(1::nat) < nat (m_loadedTextures prepared_scene)"
    by (simp add: prepared_scene_def)
  have t: "TEXTURE_INFO.tag (m_textureIDs prepared_scene ! 1) = ''door''"
    "TEXTURE_INFO.tag (m_textureIDs prepared_scene ! 0) \<noteq> ''door''"
    "ID (m_textureIDs prepared_scene ! 1) = 2"
    by (simp_all add: prepared_scene_def)
  from texture_slot_names_unit [OF a, of example_world]
  obtain w' where run: "BindGLTextures prepared_scene example_world = Inr w'" and
    all: "\<forall>i < nat (m_loadedTextures prepared_scene).
      gl_texture_binding_2d w' (GL_TEXTURE0 + int i) = ID (m_textureIDs prepared_scene ! i) \<and>
      (\<exists>j \<le> i. FindTextureSlot prepared_scene (TEXTURE_INFO.tag (m_textureIDs prepared_scene ! i)) =
           Inr (int j) \<and>
         TEXTURE_INFO.tag (m_textureIDs prepared_scene ! j) =
           TEXTURE_INFO.tag (m_textureIDs prepared_scene ! i) \<and>
         (\<forall>k < j. TEXTURE_INFO.tag (m_textureIDs prepared_scene ! k) \<noteq>
              TEXTURE_INFO.tag (m_textureIDs prepared_scene ! i)) \<and>
         ((\<forall>k < i. TEXTURE_INFO.tag (m_textureIDs prepared_scene ! k) \<noteq>
              TEXTURE_INFO.tag (m_textureIDs prepared_scene ! i)) \<longrightarrow> j = i) \<and>
         gl_texture_binding_2d w' (GL_TEXTURE0 + int j) = ID (m_textureIDs prepared_scene ! j))"
    by (elim exE conjE)
  from all i have one:
    "gl_texture_binding_2d w' (GL_TEXTURE0 + int 1) = ID (m_textureIDs prepared_scene ! 1)"
    "\<exists>j \<le> 1. FindTextureSlot prepared_scene (TEXTURE_INFO.tag (m_textureIDs prepared_scene ! 1)) =
           Inr (int j) \<and>
         ((\<forall>k < 1. TEXTURE_INFO.tag (m_textureIDs prepared_scene ! k) \<noteq>
              TEXTURE_INFO.tag (m_textureIDs prepared_scene ! 1)) \<longrightarrow> j = 1)"
    by blast+
  from one(2) obtain j where
    j: "FindTextureSlot prepared_scene (TEXTURE_INFO.tag (m_textureIDs prepared_scene ! 1)) = Inr (int j)"
      "(\<forall>k < 1. TEXTURE_INFO.tag (m_textureIDs prepared_scene ! k) \<noteq>
           TEXTURE_INFO.tag (m_textureIDs prepared_scene ! 1)) \<longrightarrow> j = 1"
    by blast
  from j(2) t have "j = 1"
    by simp
  with j(1) t have "FindTextureSlot prepared_scene ''door'' = Inr 1"
    by simp
  moreover from one(1) t have "gl_texture_binding_2d w' (GL_TEXTURE0 + 1) = 2"
    by simp
  ultimately show ?thesis
    using a i t run by simp
qed

section \<open>The model matrix\<close>

lemma last_set_snoc:
  "last_set n (cs @ [c]) = (if uniform_name c = Some n then Some c else last_set n cs)"
  by (simp add: last_set_def)

text \<open>
  In exact arithmetic the three rotations are the rotations about the coordinate axes,
  and the product applies its right factor first.
\<close>

lemma rotate_exact_x:
  "rotate_exact a (1, 0, 0) = ((1, 0, 0, 0), (0, cos a, sin a, 0), (0, - sin a, cos a, 0), (0, 0, 0, 1))"
  by (simp add: rotate_exact_def Let_def)

lemma rotate_exact_y:
  "rotate_exact a (0, 1, 0) = ((cos a, 0, - sin a, 0), (0, 1, 0, 0), (sin a, 0, cos a, 0), (0, 0, 0, 1))"
  by (simp add: rotate_exact_def Let_def)

lemma rotate_exact_z:
  "rotate_exact a (0, 0, 1) = ((cos a, sin a, 0, 0), (- sin a, cos a, 0, 0), (0, 0, 1, 0), (0, 0, 0, 1))"
  by (simp add: rotate_exact_def Let_def)

lemma mat_vec_mul: "mat_vec (mat_mul m n) v = mat_vec m (mat_vec n v)"
  by (simp add: mat_mul_def mat_vec_def split_beta algebra_simps)

lemma model_matrix_exact_applies:
  "mat_vec (model_matrix glm_exact sc x y z pos) v =
     mat_vec (translate_exact pos)
       (mat_vec (rotate_exact (radians_exact z) (0, 0, 1))
         (mat_vec (rotate_exact (radians_exact y) (0, 1, 0))
           (mat_vec (rotate_exact (radians_exact x) (1, 0, 0))
             (mat_vec (scale_exact sc) v))))"
  by (simp add: model_matrix_def glm_exact_def mat_vec_mul)

text \<open>
  Claim C1 as stated fails for a scene manager whose shader manager is null:
  \<open>SetTransformations\<close> then uploads nothing.
\<close>

theorem SetTransformations_null_shader:
  "m_pShaderManager null_shader_scene = None \<and>
   calls example_world = [] \<and>
   calls (SetTransformations glm_exact (20, 1, 10) 90 0 0 (0, 9, - 10)
            null_shader_scene example_world) = [] \<and>
   last_set ''model''
     (calls (SetTransformations glm_exact (20, 1, 10) 90 0 0 (0, 9, - 10)
               null_shader_scene example_world)) = None"
  by (simp add: SetTransformations_def null_shader_scene_def example_world_def last_set_def Let_def)

text \<open>
  Claim C1, amended. For every scale vector, rotation angles and position vector: when
  the shader manager is not null, \<open>SetTransformations\<close> makes exactly one call, which
  sets the uniform \<open>model\<close> to the product translation * rotZ * rotY * rotX * scale, the
  rotations being glm's rotations about the x-, y- and z-axis by the angles converted to
  radians; when the shader manager is null it does nothing.
\<close>

theorem SetTransformations_uploads_model:
  "(m_pShaderManager s \<noteq> None \<longrightarrow>
      SetTransformations g scaleXYZ xdeg ydeg zdeg positionXYZ s w =
        w\<lparr>calls := calls w @
             [setMat4Value ''model'' (model_matrix g scaleXYZ xdeg ydeg zdeg positionXYZ)]\<rparr> \<and>
      last_set ''model'' (calls (SetTransformations g scaleXYZ xdeg ydeg zdeg positionXYZ s w)) =
        Some (setMat4Value ''model'' (model_matrix g scaleXYZ xdeg ydeg zdeg positionXYZ))) \<and>
   (m_pShaderManager s = None \<longrightarrow>
      SetTransformations g scaleXYZ xdeg ydeg zdeg positionXYZ s w = w)"
  by (cases "m_pShaderManager s")
    (simp_all add: SetTransformations_def model_matrix_def issue_def g_ModelName_def Let_def
      last_set_snoc)

theorem SetTransformations_uploads_model_witness:
  "m_pShaderManager prepared_scene \<noteq> None \<and>
   m_pShaderManager null_shader_scene = None \<and>
   calls (SetTransformations glm_exact (20, 1, 10) 90 0 0 (0, 9, - 10)
            prepared_scene example_world) =
     [setMat4Value ''model''
        ((20, 0, 0, 0), (0, 0, 1, 0), (0, - 10, 0, 0), (0, 9, - 10, 1))] \<and>
   SetTransformations glm_exact (20, 1, 10) 90 0 0 (0, 9, - 10) null_shader_scene example_world =
     example_world"
proof -
  have p: "m_pShaderManager prepared_scene \<noteq> None" "m_pShaderManager null_shader_scene = None"
    by (simp_all add: prepared_scene_def null_shader_scene_def)
  have r: "radians_exact 90 = pi / 2" "radians_exact 0 = 0"
    by (simp_all add: radians_exact_def)
  have m: "model_matrix glm_exact (20, 1, 10) 90 0 0 (0, 9, - 10) =
      ((20, 0, 0, 0), (0, 0, 1, 0), (0, - 10, 0, 0), (0, 9, - 10, 1))"
    by (simp add: model_matrix_def glm_exact_def r rotate_exact_x rotate_exact_y rotate_exact_z
        scale_exact_def translate_exact_def mat_mul_def mat_vec_def)
  have c: "calls example_world = []"
    by (simp add: example_world_def)
  show ?thesis
    using SetTransformations_uploads_model
      [of prepared_scene glm_exact "(20, 1, 10)" 90 0 0 "(0, 9, - 10)" example_world]
      SetTransformations_uploads_model
      [of null_shader_scene glm_exact "(20, 1, 10)" 90 0 0 "(0, 9, - 10)" example_world]
      p m c
    by simp
qed

section \<open>Colour or texture\<close>

lemma FindTextureSlot_unknown:
  assumes "m_loadedTextures s \<le> int (length (m_textureIDs s))"
    "\<forall>e \<in> set (loaded_textures s). TEXTURE_INFO.tag e \<noteq> tg"
  shows "FindTextureSlot s tg = Inr (- 1)"
proof (cases "0 \<le> m_loadedTextures s")
  case True
  have "first_index (\<lambda>e. TEXTURE_INFO.tag e = tg) (loaded_textures s) = None"
    using assms(2) by (simp add: first_index_None)
  then show ?thesis
    using FindTextureSlot_loop_scan [of 0 s tg "- 1"] True assms(1)
    by (simp add: FindTextureSlot_def)
next
  case False
  then show ?thesis
    by (simp add: FindTextureSlot_def FindTextureSlot_loop_exit)
qed

text \<open>
  Claim C10 as stated fails for a scene manager whose shader manager is null: neither
  call reaches a shader, so \<open>SetShaderColor\<close> does not set \<open>bUseTexture\<close> to false and
  \<open>SetShaderTexture\<close> does not set it to true.
\<close>

theorem flag_untouched_null_shader:
  "m_pShaderManager null_shader_scene = None \<and>
   calls example_world = [] \<and>
   calls (SetShaderColor 0.5 0.5 0.5 1 null_shader_scene example_world) = [] \<and>
   SetShaderTexture ''grass'' null_shader_scene example_world = Inr example_world \<and>
   last_set ''bUseTexture''
     (calls (SetShaderColor 0.5 0.5 0.5 1 null_shader_scene example_world)) = None"
  by (simp add: SetShaderColor_def SetShaderTexture_def null_shader_scene_def example_world_def
      last_set_def)

text \<open>
  Claim C10, amended. With a shader manager that is not null and the count inside the
  array, \<open>SetShaderTexture\<close> with a tag no loaded texture carries does not fail: it makes
  two calls, setting \<open>bUseTexture\<close> to 1 (true) and the sampler \<open>objectTexture\<close> to
  \<open>- 1\<close>. Every \<open>SetShaderColor\<close> sets \<open>bUseTexture\<close> to 0 (false) and then the colour.
  After either call the flag is the one that call set, whatever calls came before. With a
  null shader manager both do nothing.
\<close>

theorem SetShaderTexture_unknown_tag:
  assumes "m_loadedTextures s \<le> int (length (m_textureIDs s))"
    "\<forall>e \<in> set (loaded_textures s). TEXTURE_INFO.tag e \<noteq> tg"
  shows "(m_pShaderManager s \<noteq> None \<longrightarrow>
            SetShaderTexture tg s w =
              Inr (w\<lparr>calls := calls w @
                     [setIntValue ''bUseTexture'' 1, setSampler2DValue ''objectTexture'' (- 1)]\<rparr>) \<and>
            last_set ''bUseTexture''
              (calls w @ [setIntValue ''bUseTexture'' 1, setSampler2DValue ''objectTexture'' (- 1)]) =
              Some (setIntValue ''bUseTexture'' 1) \<and>
            SetShaderColor r g b a s w =
              w\<lparr>calls := calls w @
                   [setIntValue ''bUseTexture'' 0, setVec4Value ''objectColor'' (r, g, b, a)]\<rparr> \<and>
            last_set ''bUseTexture'' (calls (SetShaderColor r g b a s w)) =
              Some (setIntValue ''bUseTexture'' 0)) \<and>
         (m_pShaderManager s = None \<longrightarrow>
            SetShaderTexture tg s w = Inr w \<and> SetShaderColor r g b a s w = w)"
proof (cases "m_pShaderManager s")
  case None
  then show ?thesis
    by (simp add: SetShaderTexture_def SetShaderColor_def)
next
  case (Some p)
  have "last_set ''bUseTexture''
          (calls w @ [setIntValue ''bUseTexture'' 1, setSampler2DValue ''objectTexture'' (- 1)]) =
        Some (setIntValue ''bUseTexture'' 1)"
    by (simp add: last_set_def)
  moreover have "last_set ''bUseTexture''
          (calls w @ [setIntValue ''bUseTexture'' 0, setVec4Value ''objectColor'' (r, g, b, a)]) =
        Some (setIntValue ''bUseTexture'' 0)"
    by (simp add: last_set_def)
  ultimately show ?thesis
    using Some FindTextureSlot_unknown [OF assms]
    by (simp add: SetShaderTexture_def SetShaderColor_def issue_def Let_def
        g_UseTextureName_def g_TextureValueName_def g_ColorValueName_def)
qed

theorem SetShaderTexture_unknown_tag_witness:
  "m_loadedTextures prepared_scene \<le> int (length (m_textureIDs prepared_scene)) \<and>
   map TEXTURE_INFO.tag (loaded_textures prepared_scene) = [''brick'', ''door''] \<and>
   m_pShaderManager prepared_scene \<noteq> None \<and>
   SetShaderTexture ''grass'' prepared_scene (SetShaderColor 0.5 0.5 0.5 1 prepared_scene example_world) =
     Inr (example_world\<lparr>calls :=
       [setIntValue ''bUseTexture'' 0, setVec4Value ''objectColor'' (0.5, 0.5, 0.5, 1),
        setIntValue ''bUseTexture'' 1, setSampler2DValue ''objectTexture'' (- 1)]\<rparr>)"
proof -
  have a: "m_loadedTextures prepared_scene \<le> int (length (m_textureIDs prepared_scene))"
    by (simp add: prepared_scene_def)
  have l: "loaded_textures prepared_scene =
      [\<lparr>TEXTURE_INFO.tag = ''brick'', ID = 1\<rparr>, \<lparr>TEXTURE_INFO.tag = ''door'', ID = 2\<rparr>]"
    by (simp add: loaded_textures_def prepared_scene_def)
  have u: "\<forall>e \<in> set (loaded_textures prepared_scene). TEXTURE_INFO.tag e \<noteq> ''grass''"
    by (simp add: l)
  have p: "m_pShaderManager prepared_scene \<noteq> None"
    by (simp add: prepared_scene_def)
  have c: "calls example_world = []"
    by (simp add: example_world_def)
  show ?thesis
    using SetShaderTexture_unknown_tag [OF a u, of example_world "0.5" "0.5" "0.5" 1]
      SetShaderTexture_unknown_tag [OF a u,
        of "SetShaderColor 0.5 0.5 0.5 1 prepared_scene example_world" 0 0 0 0]
      a l p c
    by simp
qed

section \<open>The scene script\<close>

lemma emit_Nil: "emit (Inr []) w = Inr w"
  by (simp add: emit_def)

lemma emits_run:
  assumes "\<forall>f \<in> set fs. emits f"
  shows "emits (run fs)"
  using assms
proof (induction fs)
  case Nil
  have "\<forall>w. run [] w = emit (Inr []) w"
    by (simp add: emit_Nil)
  then show ?case
    unfolding emits_def by blast
next
  case (Cons f fs)
  then obtain o1 o2 where
    o1: "\<And>w. f w = emit o1 w" and o2: "\<And>w. run fs w = emit o2 w"
    by (auto simp: emits_def)
  let ?out = "case o1 of Inl e \<Rightarrow> Inl e
              | Inr cs \<Rightarrow> (case o2 of Inl e \<Rightarrow> Inl e | Inr ds \<Rightarrow> Inr (cs @ ds))"
  have "run (f # fs) w = emit ?out w" for w
    by (simp add: o1 o2 emit_def then_do_def split: sum.splits)
  then show ?case
    unfolding emits_def by blast
qed

lemma emits_SetTransformations: "emits (ok (SetTransformations g sc x y z p s))"
proof -
  have "ok (SetTransformations g sc x y z p s) w =
      emit (Inr (case m_pShaderManager s of None \<Rightarrow> []
                 | Some a \<Rightarrow> [setMat4Value g_ModelName (model_matrix g sc x y z p)])) w" for w
    by (simp add: ok_def SetTransformations_def model_matrix_def emit_def issue_def Let_def
        split: option.splits)
  then show ?thesis
    unfolding emits_def by blast
qed

lemma emits_SetShaderColor: "emits (ok (SetShaderColor r gr b a s))"
proof -
  have "ok (SetShaderColor r gr b a s) w =
      emit (Inr (case m_pShaderManager s of None \<Rightarrow> []
                 | Some p \<Rightarrow> [setIntValue g_UseTextureName 0,
                               setVec4Value g_ColorValueName (r, gr, b, a)])) w" for w
    by (simp add: ok_def SetShaderColor_def emit_def issue_def Let_def split: option.splits)
  then show ?thesis
    unfolding emits_def by blast
qed

lemma emits_SetTextureUVScale: "emits (ok (SetTextureUVScale u v s))"
proof -
  have "ok (SetTextureUVScale u v s) w =
      emit (Inr (case m_pShaderManager s of None \<Rightarrow> []
                 | Some p \<Rightarrow> [setVec2Value ''UVscale'' (u, v)])) w" for w
    by (simp add: ok_def SetTextureUVScale_def emit_def issue_def split: option.splits)
  then show ?thesis
    unfolding emits_def by blast
qed

lemma emits_Draw: "emits (ok (issue c))"
proof -
  have "ok (issue c) w = emit (Inr [c]) w" for w
    by (simp add: ok_def emit_def issue_def)
  then show ?thesis
    unfolding emits_def by blast
qed

lemma emits_SetShaderTexture: "emits (SetShaderTexture tg s)"
proof -
  have "SetShaderTexture tg s w =
      emit (case m_pShaderManager s of None \<Rightarrow> Inr []
            | Some p \<Rightarrow>
                (case FindTextureSlot s tg of Inl e \<Rightarrow> Inl e
                 | Inr i \<Rightarrow> Inr [setIntValue g_UseTextureName 1,
                                 setSampler2DValue g_TextureValueName i])) w" for w
    by (simp add: SetShaderTexture_def emit_def issue_def Let_def split: option.splits sum.splits)
  then show ?thesis
    unfolding emits_def by blast
qed

lemma emits_SetShaderMaterial: "emits (SetShaderMaterial m0 tg s)"
proof -
  have "SetShaderMaterial m0 tg s w =
      emit (if m_objectMaterials s = [] then Inr []
            else (case m_pShaderManager s of None \<Rightarrow> Inl NullDereference
                  | Some p \<Rightarrow>
                      Inr [setVec3Value ''material.diffuseColor'' (diffuseColor (snd (FindMaterial s tg m0))),
                           setVec3Value ''material.specularColor'' (specularColor (snd (FindMaterial s tg m0))),
                           setFloatValue ''material.shininess'' (shininess (snd (FindMaterial s tg m0))),
                           setVec3Value ''material.ambientColor'' (ambientColor (snd (FindMaterial s tg m0))),
                           setFloatValue ''material.ambientStrength''
                             (ambientStrength (snd (FindMaterial s tg m0)))])) w" for w
    by (simp add: SetShaderMaterial_def FindMaterial_eq emit_def issue_def
        split: option.splits)
  then show ?thesis
    unfolding emits_def by blast
qed

text \<open>
  The uninitialised local of \<open>SetShaderMaterial\<close> does not show in the calls when the
  registry is empty or holds the tag.
\<close>

lemma SetShaderMaterial_local:
  assumes "m_objectMaterials s = [] \<or> has_material s tg"
  shows "SetShaderMaterial m0 tg s = SetShaderMaterial m1 tg s"
proof (cases "m_objectMaterials s = []")
  case True
  then show ?thesis
    by (auto simp: SetShaderMaterial_def)
next
  case False
  with assms have "first_index (\<lambda>e. OBJECT_MATERIAL.tag e = tg) (m_objectMaterials s) \<noteq> None"
    by (auto simp: has_material_def first_index_None)
  then obtain j where "first_index (\<lambda>e. OBJECT_MATERIAL.tag e = tg) (m_objectMaterials s) = Some j"
    by blast
  then have "SetShaderMaterial m0 tg s w = SetShaderMaterial m1 tg s w" for w
    by (simp add: SetShaderMaterial_def FindMaterial_eq copy_material_def split: option.splits)
  then show ?thesis
    by (rule ext)
qed

text \<open>
  Claim C8. Let the material registry be empty or hold both "metal" and "wood", the two
  tags the scene uses. Then there is one outcome, an error or a list of calls, such that
  every invocation of \<open>RenderScene\<close> on this scene manager ends in that error or
  appends exactly that list of calls to the ones already made, whatever the world it runs
  in (earlier calls, bound textures, files) and whatever the uninitialised local of
  \<open>SetShaderMaterial\<close> holds. The constants of the script are the literals of the
  definition of \<open>RenderScene\<close>.
\<close>

theorem RenderScene_fixed_sequence:
  assumes "m_objectMaterials s = [] \<or> (has_material s ''metal'' \<and> has_material s ''wood'')"
  shows "\<exists>out. \<forall>w material0.
           RenderScene g material0 s w =
             (case out of Inl e \<Rightarrow> Inl e | Inr cs \<Rightarrow> Inr (w\<lparr>calls := calls w @ cs\<rparr>))"
proof -
  have "emits (RenderScene g dullMaterial s)"
    unfolding RenderScene_def
    by (rule emits_run)
      (simp add: emits_SetTransformations emits_SetShaderColor emits_SetTextureUVScale
        emits_Draw emits_SetShaderTexture emits_SetShaderMaterial)
  then obtain out where out: "\<And>w. RenderScene g dullMaterial s w = emit out w"
    unfolding emits_def by blast
  have metal: "SetShaderMaterial m0 ''metal'' s = SetShaderMaterial dullMaterial ''metal'' s" for m0
    using assms by (intro SetShaderMaterial_local) auto
  have wood: "SetShaderMaterial m0 ''wood'' s = SetShaderMaterial dullMaterial ''wood'' s" for m0
    using assms by (intro SetShaderMaterial_local) auto
  have local: "RenderScene g m0 s = RenderScene g dullMaterial s" for m0
    unfolding RenderScene_def by (simp only: metal [of m0] wood [of m0])
  have "RenderScene g m0 s w = emit out w" for m0 w
    by (subst local [of m0]) (rule out)
  then show ?thesis
    unfolding emit_def by blast
qed


lemma furnished_materials:
  "m_objectMaterials furnished_scene = [shinyMaterial, dullMaterial]"
  by (simp add: furnished_scene_def materials_defined prepared_scene_def)

lemma furnished_slots:
  "FindTextureSlot furnished_scene tg =
     Inr (if tg = ''brick'' then 0 else if tg = ''door'' then 1 else - 1)"
proof -
  have "m_loadedTextures furnished_scene \<le> int (length (m_textureIDs furnished_scene))"
    "0 \<le> m_loadedTextures furnished_scene"
    "loaded_textures furnished_scene =
       [\<lparr>TEXTURE_INFO.tag = ''brick'', ID = 1\<rparr>, \<lparr>TEXTURE_INFO.tag = ''door'', ID = 2\<rparr>]"
    by (simp_all add: furnished_scene_def DefineObjectMaterials_def prepared_scene_def
        loaded_textures_def Let_def)
  then show ?thesis
    using FindTextureSlot_loop_scan [of 0 furnished_scene tg "- 1"]
    by (simp add: FindTextureSlot_def)
qed

lemma furnished_render:
  "\<exists>cs. RenderScene glm_exact dullMaterial furnished_scene example_world =
          Inr (example_world\<lparr>calls := cs\<rparr>) \<and>
        length cs = 321 \<and>
        filter is_draw cs =
          [DrawPlaneMesh, DrawPlaneMesh,
           DrawBoxMesh, DrawTaperedCylinderMesh, DrawBoxMesh, DrawTaperedCylinderMesh,
           DrawBoxMesh, DrawTaperedCylinderMesh, DrawBoxMesh, DrawTaperedCylinderMesh,
           DrawBoxMesh, DrawBoxMesh, DrawBoxMesh, DrawBoxMesh, DrawBoxMesh, DrawBoxMesh,
           DrawBoxMesh, DrawPrismMesh, DrawPlaneMesh, DrawPrismMesh,
           DrawPlaneMesh, DrawPlaneMesh, DrawPlaneMesh, DrawPlaneMesh,
           DrawPlaneMesh, DrawPlaneMesh, DrawPlaneMesh]"
proof -
  have p: "m_pShaderManager furnished_scene = Some 1"
    by (simp add: furnished_scene_def DefineObjectMaterials_def prepared_scene_def Let_def)
  have st: "ok (SetTransformations g sc x y z ps furnished_scene) =
      emit (Inr [setMat4Value ''model'' (model_matrix g sc x y z ps)])" for g sc x y z ps
    by (rule ext)
      (simp add: ok_def SetTransformations_def model_matrix_def emit_def issue_def Let_def p
        g_ModelName_def)
  have sc: "ok (SetShaderColor r gr b a furnished_scene) =
      emit (Inr [setIntValue ''bUseTexture'' 0, setVec4Value ''objectColor'' (r, gr, b, a)])"
    for r gr b a
    by (rule ext)
      (simp add: ok_def SetShaderColor_def emit_def issue_def p g_UseTextureName_def
        g_ColorValueName_def)
  have tx: "SetShaderTexture tg furnished_scene =
      emit (Inr [setIntValue ''bUseTexture'' 1,
                 setSampler2DValue ''objectTexture''
                   (if tg = ''brick'' then 0 else if tg = ''door'' then 1 else - 1)])" for tg
    by (rule ext)
      (simp add: SetShaderTexture_def emit_def issue_def p furnished_slots Let_def
        g_UseTextureName_def g_TextureValueName_def)
  have uv: "ok (SetTextureUVScale u v furnished_scene) = emit (Inr [setVec2Value ''UVscale'' (u, v)])"
    for u v
    by (rule ext) (simp add: ok_def SetTextureUVScale_def emit_def issue_def p)
  have metal: "SetShaderMaterial m0 ''metal'' furnished_scene =
      emit (Inr [setVec3Value ''material.diffuseColor'' (0.3, 0.3, 0.3),
                 setVec3Value ''material.specularColor'' (0.5, 0.5, 0.5),
                 setFloatValue ''material.shininess'' 64,
                 setVec3Value ''material.ambientColor'' (0.3, 0.1, 0.1),
                 setFloatValue ''material.ambientStrength'' 0.1])" for m0
    by (rule ext)
      (simp add: SetShaderMaterial_def FindMaterial_eq furnished_materials p emit_def issue_def
        copy_material_def shinyMaterial_def dullMaterial_def)
  have wood: "SetShaderMaterial m0 ''wood'' furnished_scene =
      emit (Inr [setVec3Value ''material.diffuseColor'' (0.3, 0.3, 0.3),
                 setVec3Value ''material.specularColor'' (0.1, 0.1, 0.1),
                 setFloatValue ''material.shininess'' 16,
                 setVec3Value ''material.ambientColor'' (0.1, 0.1, 0.1),
                 setFloatValue ''material.ambientStrength'' 0.1])" for m0
    by (rule ext)
      (simp add: SetShaderMaterial_def FindMaterial_eq furnished_materials p emit_def issue_def
        copy_material_def shinyMaterial_def dullMaterial_def)
  have dr: "ok (issue c) = emit (Inr [c])" for c
    by (rule ext) (simp add: ok_def emit_def issue_def)
  have merge: "run (emit (Inr cs) # emit (Inr ds) # fs) = run (emit (Inr (cs @ ds)) # fs)"
    for cs ds fs
    by (rule ext) (simp add: emit_def)
  have last: "run [emit out] = emit out" for out
    by (rule ext) (simp add: emit_def then_do_def split: sum.splits)
  have "\<exists>cs. RenderScene glm_exact dullMaterial furnished_scene = emit (Inr cs) \<and>
        length cs = 321 \<and>
        filter is_draw cs =
          [DrawPlaneMesh, DrawPlaneMesh,
           DrawBoxMesh, DrawTaperedCylinderMesh, DrawBoxMesh, DrawTaperedCylinderMesh,
           DrawBoxMesh, DrawTaperedCylinderMesh, DrawBoxMesh, DrawTaperedCylinderMesh,
           DrawBoxMesh, DrawBoxMesh, DrawBoxMesh, DrawBoxMesh, DrawBoxMesh, DrawBoxMesh,
           DrawBoxMesh, DrawPrismMesh, DrawPlaneMesh, DrawPrismMesh,
           DrawPlaneMesh, DrawPlaneMesh, DrawPlaneMesh, DrawPlaneMesh,
           DrawPlaneMesh, DrawPlaneMesh, DrawPlaneMesh]"
    apply (rule exI)
    apply (rule conjI)
     apply (unfold RenderScene_def st sc tx uv metal wood dr)
     apply (simp only: merge last append.simps)
    apply (rule conjI)
     apply (simp only: list.size)
    apply simp
    done
  then obtain cs where
    rs: "RenderScene glm_exact dullMaterial furnished_scene = emit (Inr cs)" and
    cs: "length cs = 321"
      "filter is_draw cs =
          [DrawPlaneMesh, DrawPlaneMesh,
           DrawBoxMesh, DrawTaperedCylinderMesh, DrawBoxMesh, DrawTaperedCylinderMesh,
           DrawBoxMesh, DrawTaperedCylinderMesh, DrawBoxMesh, DrawTaperedCylinderMesh,
           DrawBoxMesh, DrawBoxMesh, DrawBoxMesh, DrawBoxMesh, DrawBoxMesh, DrawBoxMesh,
           DrawBoxMesh, DrawPrismMesh, DrawPlaneMesh, DrawPrismMesh,
           DrawPlaneMesh, DrawPlaneMesh, DrawPlaneMesh, DrawPlaneMesh,
           DrawPlaneMesh, DrawPlaneMesh, DrawPlaneMesh]"
    by blast
  have "calls example_world = []"
    by (simp add: example_world_def)
  then have "RenderScene glm_exact dullMaterial furnished_scene example_world =
      Inr (example_world\<lparr>calls := cs\<rparr>)"
    by (simp add: rs emit_def)
  with cs show ?thesis
    by blast
qed


theorem RenderScene_fixed_sequence_witness:
  "has_material furnished_scene ''metal'' \<and> has_material furnished_scene ''wood'' \<and>
   (\<exists>cs. (\<forall>w material0.
            RenderScene glm_exact material0 furnished_scene w = Inr (w\<lparr>calls := calls w @ cs\<rparr>)) \<and>
      length cs = 321 \<and>
      filter is_draw cs =
        [DrawPlaneMesh, DrawPlaneMesh,
         DrawBoxMesh, DrawTaperedCylinderMesh, DrawBoxMesh, DrawTaperedCylinderMesh,
         DrawBoxMesh, DrawTaperedCylinderMesh, DrawBoxMesh, DrawTaperedCylinderMesh,
         DrawBoxMesh, DrawBoxMesh, DrawBoxMesh, DrawBoxMesh, DrawBoxMesh, DrawBoxMesh,
         DrawBoxMesh, DrawPrismMesh, DrawPlaneMesh, DrawPrismMesh,
         DrawPlaneMesh, DrawPlaneMesh, DrawPlaneMesh, DrawPlaneMesh,
         DrawPlaneMesh, DrawPlaneMesh, DrawPlaneMesh])"
proof -
  have m: "has_material furnished_scene ''metal''" "has_material furnished_scene ''wood''"
    by (simp_all add: has_material_def furnished_materials shinyMaterial_def dullMaterial_def)
  then have h: "m_objectMaterials furnished_scene = [] \<or>
      (has_material furnished_scene ''metal'' \<and> has_material furnished_scene ''wood'')"
    by simp
  from RenderScene_fixed_sequence [OF h, of glm_exact]
  obtain out where
    out: "\<And>w material0. RenderScene glm_exact material0 furnished_scene w =
            (case out of Inl e \<Rightarrow> Inl e | Inr cs \<Rightarrow> Inr (w\<lparr>calls := calls w @ cs\<rparr>))"
    by blast
  from furnished_render obtain cs where
    ev: "RenderScene glm_exact dullMaterial furnished_scene example_world =
           Inr (example_world\<lparr>calls := cs\<rparr>)" and
    cs: "length cs = 321"
      "filter is_draw cs =
        [DrawPlaneMesh, DrawPlaneMesh,
         DrawBoxMesh, DrawTaperedCylinderMesh, DrawBoxMesh, DrawTaperedCylinderMesh,
         DrawBoxMesh, DrawTaperedCylinderMesh, DrawBoxMesh, DrawTaperedCylinderMesh,
         DrawBoxMesh, DrawBoxMesh, DrawBoxMesh, DrawBoxMesh, DrawBoxMesh, DrawBoxMesh,
         DrawBoxMesh, DrawPrismMesh, DrawPlaneMesh, DrawPrismMesh,
         DrawPlaneMesh, DrawPlaneMesh, DrawPlaneMesh, DrawPlaneMesh,
         DrawPlaneMesh, DrawPlaneMesh, DrawPlaneMesh]"
    by blast
  have e: "calls example_world = []"
    by (simp add: example_world_def)
  have "out = Inr cs"
  proof (cases out)
    case (Inl err)
    with out [of dullMaterial example_world] ev show ?thesis
      by simp
  next
    case (Inr ds)
    with out [of dullMaterial example_world] ev
    have "example_world\<lparr>calls := calls example_world @ ds\<rparr> = example_world\<lparr>calls := cs\<rparr>"
      by simp
    then have "calls (example_world\<lparr>calls := calls example_world @ ds\<rparr>) =
        calls (example_world\<lparr>calls := cs\<rparr>)"
      by (rule arg_cong)
    with e Inr show ?thesis
      by simp
  qed
  with out have "\<forall>w material0.
      RenderScene glm_exact material0 furnished_scene w = Inr (w\<lparr>calls := calls w @ cs\<rparr>)"
    by simp
  with cs m show ?thesis
    by blast
qed

end
